theory Spec2Isabelle
  imports Main
begin

section \<open>LendingPool.sol: a shallow embedding\<close>

text \<open>
  The contract \<^verbatim>\<open>contracts/lending/LendingPool.sol\<close> is written in Solidity 0.8.24.
  Its \<^verbatim>\<open>uint256\<close> arithmetic is checked: an overflow, an underflow or a division by
  zero raises a panic, and a panic or a failed \<^verbatim>\<open>require\<close> reverts the whole call.
  Values are modelled as natural numbers and every arithmetic operation of the source
  goes through one of the checked operations below, so that each panic of the source is
  a branch of the model.
\<close>

subsection \<open>Errors and checked arithmetic\<close>

type_synonym address = nat

text \<open>One constructor per revert reason of the source (the string of the
  \<^verbatim>\<open>require\<close>), one for arithmetic panics, and four for the collaborators that
  revert on their own: the pause gate, the role gate, the token and the price feed.\<close>

datatype error =
    AmountZero
  | InsufficientCollateral
  | InsufficientLiquidity
  | NothingToRepay
  | SelfLiquidation
  | AccountHealthy
  | NoDebt
  | InvalidCollateralFactor
  | InvalidThreshold
  | InvalidBonus
  | OracleZero
  | OracleMissing
  | InvalidPrice
  | StalePrice
  | CollateralTokenZero
  | DebtTokenZero
  | AdminZero
  | Panic
  | EnforcedPause
  | ExpectedPause
  | Unauthorized
  | TransferFailed
  | FeedCallFailed

definition MAX_UINT :: nat where
  "MAX_UINT = 115792089237316195423570985008687907853269984665640564039457584007913129639935"

definition WAD :: nat where
  "WAD = 1000000000000000000"

definition PRICE_PRECISION :: nat where
  "PRICE_PRECISION = 1000000000000000000"

definition MAX_ORACLE_DELAY :: nat where
  "MAX_ORACLE_DELAY = 3600"

definition bnd :: "error + 'a \<Rightarrow> ('a \<Rightarrow> error + 'b) \<Rightarrow> error + 'b" where
  "bnd m f = (case m of Inl e \<Rightarrow> Inl e | Inr x \<Rightarrow> f x)"

definition require :: "bool \<Rightarrow> error \<Rightarrow> error + unit" where
  "require b e = (if b then Inr () else Inl e)"

definition checked_add :: "nat \<Rightarrow> nat \<Rightarrow> error + nat" where
  "checked_add a b = (if a + b \<le> MAX_UINT then Inr (a + b) else Inl Panic)"

definition checked_sub :: "nat \<Rightarrow> nat \<Rightarrow> error + nat" where
  "checked_sub a b = (if b \<le> a then Inr (a - b) else Inl Panic)"

definition checked_mul :: "nat \<Rightarrow> nat \<Rightarrow> error + nat" where
  "checked_mul a b = (if a * b \<le> MAX_UINT then Inr (a * b) else Inl Panic)"

definition checked_div :: "nat \<Rightarrow> nat \<Rightarrow> error + nat" where
  "checked_div a b = (if b = 0 then Inl Panic else Inr (a div b))"

definition checked_pow10 :: "nat \<Rightarrow> error + nat" where
  "checked_pow10 d = (if 10 ^ d \<le> MAX_UINT then Inr (10 ^ d) else Inl Panic)"

subsection \<open>State\<close>

record account =
  collateral :: nat
  borrowBase :: nat

text \<open>What \<^verbatim>\<open>latestRoundData()\<close> and \<^verbatim>\<open>decimals()\<close> of a price feed return
  (\<^verbatim>\<open>MockV3Aggregator.sol\<close>): the answer is an \<^verbatim>\<open>int256\<close>.\<close>

record feed =
  answer :: int
  updatedAt :: nat
  feedDecimals :: nat

text \<open>The context of one call: \<^verbatim>\<open>msg.sender\<close>, \<^verbatim>\<open>block.timestamp\<close> and the price
  feeds as they stand during the call (\<open>None\<close> where the address holds no feed, so
  that the external call reverts).\<close>

record env =
  sender :: address
  timestamp :: nat
  feeds :: "address \<Rightarrow> feed option"

text \<open>The storage of the pool, followed by the state of its collaborators that the
  pool reads or writes: the manager role and the pause flag of the inherited
  OpenZeppelin contracts, and the balances and allowances of the ERC-20 tokens.

  Modelled from the spec: the ERC-20 tokens, \<^verbatim>\<open>AccessControl\<close> and \<^verbatim>\<open>Pausable\<close>
  are imported from OpenZeppelin and are not part of the repository. \<open>tokenBal s t a\<close>
  is the balance of holder \<open>a\<close> in token \<open>t\<close>, \<open>tokenAllowance s t a\<close> what \<open>a\<close>
  has approved the pool to draw; a transfer is atomic and reverts on an insufficient
  balance or approval.\<close>

record state =
  poolAddress :: address
  collateralToken :: address
  debtToken :: address
  collateralTokenDecimals :: nat
  debtTokenDecimals :: nat
  collateralOracle :: address
  debtOracle :: address
  collateralFactor :: nat
  liquidationThreshold :: nat
  liquidationBonus :: nat
  interestRatePerSecond :: nat
  totalCollateral :: nat
  totalBorrows :: nat
  borrowIndex :: nat
  lastAccrual :: nat
  accounts :: "address \<Rightarrow> account"
  managers :: "address \<Rightarrow> bool"
  paused :: bool
  tokenBal :: "address \<Rightarrow> address \<Rightarrow> nat"
  tokenAllowance :: "address \<Rightarrow> address \<Rightarrow> nat"

subsection \<open>Collaborators\<close>

text \<open>Modelled from the spec: the pause gate and the role gate of OpenZeppelin's
  \<^verbatim>\<open>Pausable\<close> and \<^verbatim>\<open>AccessControl\<close>, which are not part of the repository:
  they reject a paused or unauthorized call before the function's own logic runs.\<close>

definition whenNotPaused :: "state \<Rightarrow> error + unit" where
  "whenNotPaused s = require (\<not> paused s) EnforcedPause"

definition onlyManager :: "env \<Rightarrow> state \<Rightarrow> error + unit" where
  "onlyManager e s = require (managers s (sender e)) Unauthorized"

text \<open>Modelled from the spec: the asset-transfer primitive of the ERC-20 tokens
  (OpenZeppelin's, not part of the repository), atomic and reverting on an insufficient
  balance or approval. The tokens' total supply fits in 256 bits, so crediting a balance
  cannot overflow.\<close>

definition balanceOf :: "state \<Rightarrow> address \<Rightarrow> address \<Rightarrow> nat" where
  "balanceOf s tok a = tokenBal s tok a"

definition moveTokens ::
  "address \<Rightarrow> address \<Rightarrow> address \<Rightarrow> nat \<Rightarrow> (address \<Rightarrow> address \<Rightarrow> nat) \<Rightarrow> (address \<Rightarrow> address \<Rightarrow> nat)" where
  "moveTokens tok src dst amount b =
     (let b1 = b(tok := (b tok)(src := b tok src - amount))
      in b1(tok := (b1 tok)(dst := b1 tok dst + amount)))"

text \<open>\<^verbatim>\<open>token.safeTransferFrom(from, address(this), amount)\<close>.\<close>

definition safeTransferFrom :: "address \<Rightarrow> address \<Rightarrow> nat \<Rightarrow> state \<Rightarrow> error + state" where
  "safeTransferFrom tok src amount s =
     (if tokenBal s tok src < amount \<or> tokenAllowance s tok src < amount then Inl TransferFailed
      else Inr (s\<lparr>tokenBal := moveTokens tok src (poolAddress s) amount (tokenBal s),
                  tokenAllowance := (tokenAllowance s)(tok := (tokenAllowance s tok)(src := tokenAllowance s tok src - amount))\<rparr>))"

text \<open>\<^verbatim>\<open>token.safeTransfer(to, amount)\<close>, paid from the pool's own balance.\<close>

definition safeTransfer :: "address \<Rightarrow> address \<Rightarrow> nat \<Rightarrow> state \<Rightarrow> error + state" where
  "safeTransfer tok dst amount s =
     (if tokenBal s tok (poolAddress s) < amount then Inl TransferFailed
      else Inr (s\<lparr>tokenBal := moveTokens tok (poolAddress s) dst amount (tokenBal s)\<rparr>))"

subsection \<open>Internal functions\<close>

text \<open>The source's internal functions start with an underscore; here they carry the
  prefix \<open>i_\<close>. A \<^verbatim>\<open>storage\<close> reference to an account is the address of its owner.\<close>

definition i_accrueInterest :: "env \<Rightarrow> state \<Rightarrow> error + state" where
  "i_accrueInterest e s =
     (if timestamp e = lastAccrual s \<or> totalBorrows s = 0 \<or> interestRatePerSecond s = 0
      then Inr (s\<lparr>lastAccrual := timestamp e\<rparr>)
      else
        bnd (checked_sub (timestamp e) (lastAccrual s)) (\<lambda>delta.
        bnd (checked_mul (interestRatePerSecond s) delta) (\<lambda>simpleInterestFactor.
        bnd (checked_mul (totalBorrows s) simpleInterestFactor) (\<lambda>p.
        bnd (checked_div p WAD) (\<lambda>interest.
        bnd (checked_add (totalBorrows s) interest) (\<lambda>tb.
        bnd (checked_mul (borrowIndex s) simpleInterestFactor) (\<lambda>q.
        bnd (checked_div q WAD) (\<lambda>inc.
        bnd (checked_add (borrowIndex s) inc) (\<lambda>bi.
        Inr (s\<lparr>totalBorrows := tb, borrowIndex := bi, lastAccrual := timestamp e\<rparr>))))))))))"

definition i_previewAccrual :: "env \<Rightarrow> state \<Rightarrow> error + nat \<times> nat" where
  "i_previewAccrual e s =
     (if timestamp e = lastAccrual s \<or> totalBorrows s = 0 \<or> interestRatePerSecond s = 0
      then Inr (borrowIndex s, totalBorrows s)
      else
        bnd (checked_sub (timestamp e) (lastAccrual s)) (\<lambda>delta.
        bnd (checked_mul (interestRatePerSecond s) delta) (\<lambda>simpleInterestFactor.
        bnd (checked_mul (totalBorrows s) simpleInterestFactor) (\<lambda>p.
        bnd (checked_div p WAD) (\<lambda>interest.
        bnd (checked_add (totalBorrows s) interest) (\<lambda>projectedBorrows.
        bnd (checked_mul (borrowIndex s) simpleInterestFactor) (\<lambda>q.
        bnd (checked_div q WAD) (\<lambda>inc.
        bnd (checked_add (borrowIndex s) inc) (\<lambda>projectedIndex.
        Inr (projectedIndex, projectedBorrows))))))))))"

definition i_borrowBalanceWithIndex :: "account \<Rightarrow> nat \<Rightarrow> error + nat" where
  "i_borrowBalanceWithIndex a index =
     (if borrowBase a = 0 then Inr 0
      else bnd (checked_mul (borrowBase a) index) (\<lambda>p. checked_div p WAD))"

definition i_borrowBalance :: "state \<Rightarrow> account \<Rightarrow> error + nat" where
  "i_borrowBalance s a = i_borrowBalanceWithIndex a (borrowIndex s)"

definition setBorrowBase :: "address \<Rightarrow> nat \<Rightarrow> state \<Rightarrow> state" where
  "setBorrowBase who b s = s\<lparr>accounts := (accounts s)(who := (accounts s who)\<lparr>borrowBase := b\<rparr>)\<rparr>"

definition setCollateral :: "address \<Rightarrow> nat \<Rightarrow> state \<Rightarrow> state" where
  "setCollateral who c s = s\<lparr>accounts := (accounts s)(who := (accounts s who)\<lparr>collateral := c\<rparr>)\<rparr>"

definition i_increaseBorrow :: "address \<Rightarrow> nat \<Rightarrow> state \<Rightarrow> error + state" where
  "i_increaseBorrow who amount s =
     bnd (i_borrowBalance s (accounts s who)) (\<lambda>bal.
     bnd (checked_add bal amount) (\<lambda>newBalance.
     bnd (checked_mul newBalance WAD) (\<lambda>p.
     bnd (checked_div p (borrowIndex s)) (\<lambda>base.
     bnd (checked_add (totalBorrows s) amount) (\<lambda>tb.
     Inr ((setBorrowBase who base s)\<lparr>totalBorrows := tb\<rparr>))))))"

definition i_decreaseBorrow :: "address \<Rightarrow> nat \<Rightarrow> state \<Rightarrow> error + nat \<times> state" where
  "i_decreaseBorrow who amount0 s =
     bnd (i_borrowBalance s (accounts s who)) (\<lambda>current.
     let amount = (if amount0 > current then current else amount0) in
     if amount = 0 then Inr (0, s)
     else
       bnd (checked_sub current amount) (\<lambda>newBalance.
       bnd (if newBalance = 0 then Inr 0
            else bnd (checked_mul newBalance WAD) (\<lambda>p. checked_div p (borrowIndex s))) (\<lambda>base.
       bnd (checked_sub (totalBorrows s) amount) (\<lambda>tb.
       Inr (amount, (setBorrowBase who base s)\<lparr>totalBorrows := tb\<rparr>)))))"

definition i_getScaledPrice :: "env \<Rightarrow> address \<Rightarrow> error + nat" where
  "i_getScaledPrice e oracle =
     bnd (require (oracle \<noteq> 0) OracleMissing) (\<lambda>_.
     case feeds e oracle of
       None \<Rightarrow> Inl FeedCallFailed
     | Some f \<Rightarrow>
         bnd (require (answer f > 0) InvalidPrice) (\<lambda>_.
         bnd (if updatedAt f = 0 then Inl StalePrice
              else bnd (checked_sub (timestamp e) (updatedAt f)) (\<lambda>age.
                   require (age \<le> MAX_ORACLE_DELAY) StalePrice)) (\<lambda>_.
         bnd (checked_pow10 (feedDecimals f)) (\<lambda>scale.
         bnd (checked_mul (nat (answer f)) PRICE_PRECISION) (\<lambda>p.
         checked_div p scale)))))"

definition i_tokenValueUsd :: "env \<Rightarrow> nat \<Rightarrow> nat \<Rightarrow> address \<Rightarrow> error + nat" where
  "i_tokenValueUsd e amount decimals oracle =
     (if amount = 0 then Inr 0
      else
        bnd (i_getScaledPrice e oracle) (\<lambda>price.
        bnd (checked_pow10 decimals) (\<lambda>scale.
        bnd (checked_mul amount price) (\<lambda>p.
        checked_div p scale))))"

definition i_collateralValueUsd :: "env \<Rightarrow> state \<Rightarrow> nat \<Rightarrow> error + nat" where
  "i_collateralValueUsd e s amount =
     i_tokenValueUsd e amount (collateralTokenDecimals s) (collateralOracle s)"

definition i_debtValueUsd :: "env \<Rightarrow> state \<Rightarrow> nat \<Rightarrow> error + nat" where
  "i_debtValueUsd e s amount =
     i_tokenValueUsd e amount (debtTokenDecimals s) (debtOracle s)"

definition i_isSolvent :: "env \<Rightarrow> state \<Rightarrow> account \<Rightarrow> error + bool" where
  "i_isSolvent e s a =
     bnd (i_borrowBalance s a) (\<lambda>debt.
     if debt = 0 then Inr True
     else
       bnd (i_collateralValueUsd e s (collateral a)) (\<lambda>collateralValue.
       bnd (i_debtValueUsd e s debt) (\<lambda>debtValue.
       bnd (checked_mul collateralValue (collateralFactor s)) (\<lambda>p.
       bnd (checked_div p WAD) (\<lambda>limit.
       Inr (limit \<ge> debtValue))))))"

definition i_healthFactor :: "env \<Rightarrow> state \<Rightarrow> nat \<Rightarrow> nat \<Rightarrow> nat \<Rightarrow> nat \<Rightarrow> error + nat" where
  "i_healthFactor e s collateralAmount base index threshold =
     (if base = 0 then Inr MAX_UINT
      else
        bnd (checked_mul base index) (\<lambda>p.
        bnd (checked_div p WAD) (\<lambda>debt.
        if debt = 0 then Inr MAX_UINT
        else
          bnd (i_collateralValueUsd e s collateralAmount) (\<lambda>collateralValue.
          bnd (i_debtValueUsd e s debt) (\<lambda>debtValue.
          if debtValue = 0 then Inr MAX_UINT
          else
            bnd (checked_mul collateralValue threshold) (\<lambda>q.
            checked_div q debtValue))))))"

definition i_isHealthy :: "env \<Rightarrow> state \<Rightarrow> account \<Rightarrow> error + bool" where
  "i_isHealthy e s a =
     bnd (i_healthFactor e s (collateral a) (borrowBase a) (borrowIndex s) (liquidationThreshold s))
       (\<lambda>health. Inr (health \<ge> WAD))"

definition i_validateRiskParams :: "nat \<Rightarrow> nat \<Rightarrow> nat \<Rightarrow> error + unit" where
  "i_validateRiskParams cf lt lb =
     bnd (require (cf > 0 \<and> cf \<le> WAD) InvalidCollateralFactor) (\<lambda>_.
     bnd (require (lt \<ge> cf \<and> lt \<le> WAD) InvalidThreshold) (\<lambda>_.
     require (lb \<ge> WAD) InvalidBonus))"

definition i_maxBorrowInDebtTokens :: "env \<Rightarrow> state \<Rightarrow> nat \<Rightarrow> error + nat" where
  "i_maxBorrowInDebtTokens e s collateralAmount =
     bnd (i_collateralValueUsd e s collateralAmount) (\<lambda>v.
     bnd (checked_mul v (collateralFactor s)) (\<lambda>p.
     bnd (checked_div p WAD) (\<lambda>usdLimit.
     if usdLimit = 0 then Inr 0
     else
       bnd (i_getScaledPrice e (debtOracle s)) (\<lambda>debtPrice.
       bnd (checked_pow10 (debtTokenDecimals s)) (\<lambda>scale.
       bnd (checked_mul usdLimit scale) (\<lambda>q.
       checked_div q debtPrice))))))"

subsection \<open>Public functions\<close>


definition depositCollateral :: "env \<Rightarrow> nat \<Rightarrow> state \<Rightarrow> error + state" where
  "depositCollateral e amount s =
     bnd (whenNotPaused s) (\<lambda>_.
     bnd (require (amount > 0) AmountZero) (\<lambda>_.
     bnd (i_accrueInterest e s) (\<lambda>s1.
     bnd (checked_add (collateral (accounts s1 (sender e))) amount) (\<lambda>c.
     bnd (checked_add (totalCollateral s1) amount) (\<lambda>tc.
     safeTransferFrom (collateralToken s1) (sender e) amount
       ((setCollateral (sender e) c s1)\<lparr>totalCollateral := tc\<rparr>))))))"

definition withdrawCollateral :: "env \<Rightarrow> nat \<Rightarrow> state \<Rightarrow> error + state" where
  "withdrawCollateral e amount s =
     bnd (require (amount > 0) AmountZero) (\<lambda>_.
     bnd (i_accrueInterest e s) (\<lambda>s1.
     bnd (require (collateral (accounts s1 (sender e)) \<ge> amount) InsufficientCollateral) (\<lambda>_.
     bnd (checked_sub (collateral (accounts s1 (sender e))) amount) (\<lambda>c.
     bnd (checked_sub (totalCollateral s1) amount) (\<lambda>tc.
     let s2 = (setCollateral (sender e) c s1)\<lparr>totalCollateral := tc\<rparr> in
     bnd (i_isSolvent e s2 (accounts s2 (sender e))) (\<lambda>solvent.
     bnd (require solvent InsufficientCollateral) (\<lambda>_.
     safeTransfer (collateralToken s2) (sender e) amount s2)))))))"

definition borrow :: "env \<Rightarrow> nat \<Rightarrow> state \<Rightarrow> error + state" where
  "borrow e amount s =
     bnd (whenNotPaused s) (\<lambda>_.
     bnd (require (amount > 0) AmountZero) (\<lambda>_.
     bnd (i_accrueInterest e s) (\<lambda>s1.
     bnd (require (amount \<le> balanceOf s1 (debtToken s1) (poolAddress s1)) InsufficientLiquidity) (\<lambda>_.
     bnd (i_increaseBorrow (sender e) amount s1) (\<lambda>s2.
     bnd (i_isSolvent e s2 (accounts s2 (sender e))) (\<lambda>solvent.
     bnd (require solvent InsufficientCollateral) (\<lambda>_.
     safeTransfer (debtToken s2) (sender e) amount s2)))))))"

definition repay :: "env \<Rightarrow> nat \<Rightarrow> state \<Rightarrow> error + nat \<times> state" where
  "repay e amount s =
     bnd (require (amount > 0) AmountZero) (\<lambda>_.
     bnd (i_accrueInterest e s) (\<lambda>s1.
     bnd (i_decreaseBorrow (sender e) amount s1) (\<lambda>(actualRepay, s2).
     bnd (require (actualRepay > 0) NothingToRepay) (\<lambda>_.
     bnd (safeTransferFrom (debtToken s2) (sender e) actualRepay s2) (\<lambda>s3.
     Inr (actualRepay, s3))))))"

definition liquidate :: "env \<Rightarrow> address \<Rightarrow> nat \<Rightarrow> state \<Rightarrow> error + state" where
  "liquidate e borrower repayAmount s =
     bnd (whenNotPaused s) (\<lambda>_.
     bnd (require (borrower \<noteq> sender e) SelfLiquidation) (\<lambda>_.
     bnd (require (repayAmount > 0) AmountZero) (\<lambda>_.
     bnd (i_accrueInterest e s) (\<lambda>s1.
     bnd (i_isHealthy e s1 (accounts s1 borrower)) (\<lambda>healthy.
     bnd (require (\<not> healthy) AccountHealthy) (\<lambda>_.
     bnd (i_borrowBalance s1 (accounts s1 borrower)) (\<lambda>debt.
     bnd (require (debt > 0) NoDebt) (\<lambda>_.
     let actualRepay = (if repayAmount > debt then debt else repayAmount) in
     bnd (safeTransferFrom (debtToken s1) (sender e) actualRepay s1) (\<lambda>s2.
     bnd (i_decreaseBorrow borrower actualRepay s2) (\<lambda>(_, s3).
     bnd (checked_mul actualRepay (liquidationBonus s3)) (\<lambda>p.
     bnd (checked_div p WAD) (\<lambda>seize0.
     let seize = (if seize0 > collateral (accounts s3 borrower)
                  then collateral (accounts s3 borrower) else seize0) in
     bnd (checked_sub (collateral (accounts s3 borrower)) seize) (\<lambda>c.
     bnd (checked_sub (totalCollateral s3) seize) (\<lambda>tc.
     safeTransfer (collateralToken s3) (sender e) seize
       ((setCollateral borrower c s3)\<lparr>totalCollateral := tc\<rparr>)))))))))))))))"

definition provideLiquidity :: "env \<Rightarrow> nat \<Rightarrow> state \<Rightarrow> error + state" where
  "provideLiquidity e amount s =
     bnd (onlyManager e s) (\<lambda>_.
     bnd (require (amount > 0) AmountZero) (\<lambda>_.
     safeTransferFrom (debtToken s) (sender e) amount s))"

definition withdrawLiquidity :: "env \<Rightarrow> nat \<Rightarrow> state \<Rightarrow> error + state" where
  "withdrawLiquidity e amount s =
     bnd (onlyManager e s) (\<lambda>_.
     bnd (require (amount > 0) AmountZero) (\<lambda>_.
     bnd (require (amount \<le> balanceOf s (debtToken s) (poolAddress s)) InsufficientLiquidity) (\<lambda>_.
     safeTransfer (debtToken s) (sender e) amount s)))"

definition setRiskParameters :: "env \<Rightarrow> nat \<Rightarrow> nat \<Rightarrow> nat \<Rightarrow> state \<Rightarrow> error + state" where
  "setRiskParameters e cf lt lb s =
     bnd (onlyManager e s) (\<lambda>_.
     bnd (i_validateRiskParams cf lt lb) (\<lambda>_.
     Inr (s\<lparr>collateralFactor := cf, liquidationThreshold := lt, liquidationBonus := lb\<rparr>)))"

definition setInterestRate :: "env \<Rightarrow> nat \<Rightarrow> state \<Rightarrow> error + state" where
  "setInterestRate e newRate s =
     bnd (onlyManager e s) (\<lambda>_.
     bnd (i_accrueInterest e s) (\<lambda>s1.
     Inr (s1\<lparr>interestRatePerSecond := newRate\<rparr>)))"

definition setOracles :: "env \<Rightarrow> address \<Rightarrow> address \<Rightarrow> state \<Rightarrow> error + state" where
  "setOracles e newCollateralOracle newDebtOracle s =
     bnd (onlyManager e s) (\<lambda>_.
     bnd (require (newCollateralOracle \<noteq> 0 \<and> newDebtOracle \<noteq> 0) OracleZero) (\<lambda>_.
     Inr (s\<lparr>collateralOracle := newCollateralOracle, debtOracle := newDebtOracle\<rparr>)))"

definition pause :: "env \<Rightarrow> state \<Rightarrow> error + state" where
  "pause e s =
     bnd (onlyManager e s) (\<lambda>_.
     bnd (require (\<not> paused s) EnforcedPause) (\<lambda>_.
     Inr (s\<lparr>paused := True\<rparr>)))"

definition unpause :: "env \<Rightarrow> state \<Rightarrow> error + state" where
  "unpause e s =
     bnd (onlyManager e s) (\<lambda>_.
     bnd (require (paused s) ExpectedPause) (\<lambda>_.
     Inr (s\<lparr>paused := False\<rparr>)))"

definition accrueInterest :: "env \<Rightarrow> state \<Rightarrow> error + state" where
  "accrueInterest e s = i_accrueInterest e s"

subsection \<open>Views\<close>

definition getAccountData :: "env \<Rightarrow> address \<Rightarrow> state \<Rightarrow> error + nat \<times> nat \<times> nat \<times> nat" where
  "getAccountData e user s =
     bnd (i_previewAccrual e s) (\<lambda>(projectedIndex, _).
     bnd (i_borrowBalanceWithIndex (accounts s user) projectedIndex) (\<lambda>debt.
     bnd (i_healthFactor e s (collateral (accounts s user)) (borrowBase (accounts s user))
            projectedIndex (liquidationThreshold s)) (\<lambda>healthFactor.
     bnd (i_maxBorrowInDebtTokens e s (collateral (accounts s user))) (\<lambda>borrowLimit.
     Inr (collateral (accounts s user), debt, healthFactor, borrowLimit)))))"

definition availableLiquidity :: "state \<Rightarrow> nat" where
  "availableLiquidity s = balanceOf s (debtToken s) (poolAddress s)"

definition utilizationOf :: "nat \<Rightarrow> nat \<Rightarrow> error + nat" where
  "utilizationOf borrows available =
     (if borrows = 0 then Inr 0
      else bnd (checked_mul borrows WAD) (\<lambda>p.
           bnd (checked_add borrows available) (\<lambda>d. checked_div p d)))"

definition getPoolData :: "env \<Rightarrow> state \<Rightarrow> error + nat \<times> nat \<times> nat \<times> nat \<times> nat" where
  "getPoolData e s =
     bnd (i_previewAccrual e s) (\<lambda>(index, borrows).
     bnd (utilizationOf borrows (availableLiquidity s)) (\<lambda>util.
     Inr (totalCollateral s, borrows, availableLiquidity s, util, index)))"

definition utilization :: "env \<Rightarrow> state \<Rightarrow> error + nat" where
  "utilization e s =
     bnd (i_previewAccrual e s) (\<lambda>(_, borrows). utilizationOf borrows (availableLiquidity s))"

definition getBorrowBalance :: "env \<Rightarrow> address \<Rightarrow> state \<Rightarrow> error + nat" where
  "getBorrowBalance e user s =
     bnd (i_previewAccrual e s) (\<lambda>(projectedIndex, _).
     i_borrowBalanceWithIndex (accounts s user) projectedIndex)"

definition getPriceData :: "env \<Rightarrow> state \<Rightarrow> error + nat \<times> nat" where
  "getPriceData e s =
     bnd (i_getScaledPrice e (collateralOracle s)) (\<lambda>collateralPrice.
     bnd (i_getScaledPrice e (debtOracle s)) (\<lambda>debtPrice.
     Inr (collateralPrice, debtPrice)))"

subsection \<open>Calls and transactions\<close>

datatype call =
    DepositCollateral nat
  | WithdrawCollateral nat
  | Borrow nat
  | Repay nat
  | Liquidate address nat
  | ProvideLiquidity nat
  | WithdrawLiquidity nat
  | SetRiskParameters nat nat nat
  | SetInterestRate nat
  | SetOracles address address
  | Pause
  | Unpause
  | AccrueInterest
  | GetAccountData address
  | GetPoolData
  | AvailableLiquidity
  | Utilization
  | GetBorrowBalance address
  | GetPriceData

text \<open>The body of a call: the state it leaves when it returns, or the revert reason.\<close>

fun exec :: "env \<Rightarrow> call \<Rightarrow> state \<Rightarrow> error + state" where
  "exec e (DepositCollateral amount) s = depositCollateral e amount s"
| "exec e (WithdrawCollateral amount) s = withdrawCollateral e amount s"
| "exec e (Borrow amount) s = borrow e amount s"
| "exec e (Repay amount) s = bnd (repay e amount s) (\<lambda>(_, s'). Inr s')"
| "exec e (Liquidate borrower amount) s = liquidate e borrower amount s"
| "exec e (ProvideLiquidity amount) s = provideLiquidity e amount s"
| "exec e (WithdrawLiquidity amount) s = withdrawLiquidity e amount s"
| "exec e (SetRiskParameters cf lt lb) s = setRiskParameters e cf lt lb s"
| "exec e (SetInterestRate r) s = setInterestRate e r s"
| "exec e (SetOracles c d) s = setOracles e c d s"
| "exec e Pause s = pause e s"
| "exec e Unpause s = unpause e s"
| "exec e AccrueInterest s = accrueInterest e s"
| "exec e (GetAccountData user) s = bnd (getAccountData e user s) (\<lambda>_. Inr s)"
| "exec e GetPoolData s = bnd (getPoolData e s) (\<lambda>_. Inr s)"
| "exec e AvailableLiquidity s = Inr s"
| "exec e Utilization s = bnd (utilization e s) (\<lambda>_. Inr s)"
| "exec e (GetBorrowBalance user) s = bnd (getBorrowBalance e user s) (\<lambda>_. Inr s)"
| "exec e GetPriceData s = bnd (getPriceData e s) (\<lambda>_. Inr s)"

text \<open>A call as a transaction. A revert undoes every write of the call, so the state
  after a reverted call is the state before it; this is the only place where the model
  says so. The first component is the revert reason, if any.\<close>

definition transact :: "env \<Rightarrow> call \<Rightarrow> state \<Rightarrow> error option \<times> state" where
  "transact e c s = (case exec e c s of Inl err \<Rightarrow> (Some err, s) | Inr s' \<Rightarrow> (None, s'))"

fun run :: "(env \<times> call) list \<Rightarrow> state \<Rightarrow> state" where
  "run [] s = s"
| "run ((e, c) # rest) s = run rest (snd (transact e c s))"

text \<open>The states a sequence of calls goes through, the starting state first.\<close>

fun states_of :: "(env \<times> call) list \<Rightarrow> state \<Rightarrow> state list" where
  "states_of [] s = [s]"
| "states_of ((e, c) # rest) s = s # states_of rest (snd (transact e c s))"

fun mutating :: "call \<Rightarrow> bool" where
  "mutating (DepositCollateral _) = True"
| "mutating (WithdrawCollateral _) = True"
| "mutating (Borrow _) = True"
| "mutating (Repay _) = True"
| "mutating (Liquidate _ _) = True"
| "mutating (ProvideLiquidity _) = True"
| "mutating (WithdrawLiquidity _) = True"
| "mutating (SetRiskParameters _ _ _) = True"
| "mutating (SetInterestRate _) = True"
| "mutating (SetOracles _ _) = True"
| "mutating _ = False"

subsection \<open>The bodies, write by write\<close>

text \<open>The functions above return either the final state or the reason of the revert.
  Here the same bodies are written statement by statement, each storage write where
  the source makes it, so that a failing \<^verbatim>\<open>require\<close> or a panic stops the body
  with every earlier write in place: \<^verbatim>\<open>withdrawCollateral\<close> has debited the collateral
  when its solvency check fails, \<^verbatim>\<open>_accrueInterest\<close> has raised \<open>totalBorrows\<close> when
  the product for the index overflows. A write records, in a journal, how to put the
  overwritten value back; a revert replays the journal, the latest entry first.\<close>

type_synonym raw = "(state \<Rightarrow> state) list \<times> state"

type_synonym 'a step = "raw \<Rightarrow> (error + 'a) \<times> raw"

definition undo :: "(state \<Rightarrow> state) list \<Rightarrow> state \<Rightarrow> state" where
  "undo j s = foldl (\<lambda>t u. u t) s j"

text \<open>A check or a computation that writes nothing.\<close>

definition chk :: "error + 'a \<Rightarrow> 'a step" where
  "chk m = (\<lambda>r. (m, r))"

text \<open>Reading the storage as it stands.\<close>

definition rd :: "(state \<Rightarrow> 'a step) \<Rightarrow> 'a step" where
  "rd f = (\<lambda>r. f (snd r) r)"

text \<open>Sequencing: a failed step stops the body.\<close>

definition rb :: "'a step \<Rightarrow> ('a \<Rightarrow> 'b step) \<Rightarrow> 'b step" where
  "rb m f = (\<lambda>r. case m r of (Inl e, r') \<Rightarrow> (Inl e, r') | (Inr x, r') \<Rightarrow> f x r')"

text \<open>A storage write, with the way back.\<close>

definition sstore :: "(state \<Rightarrow> state) \<Rightarrow> (state \<Rightarrow> state \<Rightarrow> state) \<Rightarrow> unit step" where
  "sstore upd back = (\<lambda>r. (Inr (), (back (snd r) # fst r, upd (snd r))))"

definition w_totalCollateral :: "nat \<Rightarrow> unit step" where
  "w_totalCollateral v =
     sstore (\<lambda>s. s\<lparr>totalCollateral := v\<rparr>) (\<lambda>s t. t\<lparr>totalCollateral := totalCollateral s\<rparr>)"

definition w_totalBorrows :: "nat \<Rightarrow> unit step" where
  "w_totalBorrows v =
     sstore (\<lambda>s. s\<lparr>totalBorrows := v\<rparr>) (\<lambda>s t. t\<lparr>totalBorrows := totalBorrows s\<rparr>)"

definition w_borrowIndex :: "nat \<Rightarrow> unit step" where
  "w_borrowIndex v =
     sstore (\<lambda>s. s\<lparr>borrowIndex := v\<rparr>) (\<lambda>s t. t\<lparr>borrowIndex := borrowIndex s\<rparr>)"

definition w_lastAccrual :: "nat \<Rightarrow> unit step" where
  "w_lastAccrual v =
     sstore (\<lambda>s. s\<lparr>lastAccrual := v\<rparr>) (\<lambda>s t. t\<lparr>lastAccrual := lastAccrual s\<rparr>)"

definition w_collateral :: "address \<Rightarrow> nat \<Rightarrow> unit step" where
  "w_collateral who v =
     sstore (setCollateral who v) (\<lambda>s t. setCollateral who (collateral (accounts s who)) t)"

definition w_borrowBase :: "address \<Rightarrow> nat \<Rightarrow> unit step" where
  "w_borrowBase who v =
     sstore (setBorrowBase who v) (\<lambda>s t. setBorrowBase who (borrowBase (accounts s who)) t)"

definition w_riskParameter :: "nat \<Rightarrow> nat \<Rightarrow> nat \<Rightarrow> unit step" where
  "w_riskParameter cf lt lb =
     rb (sstore (\<lambda>s. s\<lparr>collateralFactor := cf\<rparr>)
                (\<lambda>s t. t\<lparr>collateralFactor := collateralFactor s\<rparr>)) (\<lambda>_.
     rb (sstore (\<lambda>s. s\<lparr>liquidationThreshold := lt\<rparr>)
                (\<lambda>s t. t\<lparr>liquidationThreshold := liquidationThreshold s\<rparr>)) (\<lambda>_.
     sstore (\<lambda>s. s\<lparr>liquidationBonus := lb\<rparr>)
            (\<lambda>s t. t\<lparr>liquidationBonus := liquidationBonus s\<rparr>)))"

definition w_interestRatePerSecond :: "nat \<Rightarrow> unit step" where
  "w_interestRatePerSecond v =
     sstore (\<lambda>s. s\<lparr>interestRatePerSecond := v\<rparr>)
            (\<lambda>s t. t\<lparr>interestRatePerSecond := interestRatePerSecond s\<rparr>)"

definition w_oracles :: "address \<Rightarrow> address \<Rightarrow> unit step" where
  "w_oracles c d =
     rb (sstore (\<lambda>s. s\<lparr>collateralOracle := c\<rparr>)
                (\<lambda>s t. t\<lparr>collateralOracle := collateralOracle s\<rparr>)) (\<lambda>_.
     sstore (\<lambda>s. s\<lparr>debtOracle := d\<rparr>) (\<lambda>s t. t\<lparr>debtOracle := debtOracle s\<rparr>))"

definition w_paused :: "bool \<Rightarrow> unit step" where
  "w_paused v = sstore (\<lambda>s. s\<lparr>paused := v\<rparr>) (\<lambda>s t. t\<lparr>paused := paused s\<rparr>)"

definition w_tokenBal :: "(address \<Rightarrow> address \<Rightarrow> nat) \<Rightarrow> unit step" where
  "w_tokenBal v = sstore (\<lambda>s. s\<lparr>tokenBal := v\<rparr>) (\<lambda>s t. t\<lparr>tokenBal := tokenBal s\<rparr>)"

definition w_tokenAllowance :: "(address \<Rightarrow> address \<Rightarrow> nat) \<Rightarrow> unit step" where
  "w_tokenAllowance v =
     sstore (\<lambda>s. s\<lparr>tokenAllowance := v\<rparr>) (\<lambda>s t. t\<lparr>tokenAllowance := tokenAllowance s\<rparr>)"

definition raw_safeTransferFrom :: "address \<Rightarrow> address \<Rightarrow> nat \<Rightarrow> unit step" where
  "raw_safeTransferFrom tok src amount =
     rd (\<lambda>s.
     if tokenBal s tok src < amount \<or> tokenAllowance s tok src < amount
     then chk (Inl TransferFailed)
     else
       rb (w_tokenBal (moveTokens tok src (poolAddress s) amount (tokenBal s))) (\<lambda>_.
       w_tokenAllowance ((tokenAllowance s)(tok := (tokenAllowance s tok)(src :=
          tokenAllowance s tok src - amount)))))"

definition raw_safeTransfer :: "address \<Rightarrow> address \<Rightarrow> nat \<Rightarrow> unit step" where
  "raw_safeTransfer tok dst amount =
     rd (\<lambda>s.
     if tokenBal s tok (poolAddress s) < amount then chk (Inl TransferFailed)
     else w_tokenBal (moveTokens tok (poolAddress s) dst amount (tokenBal s)))"

definition raw_accrueInterest :: "env \<Rightarrow> unit step" where
  "raw_accrueInterest e =
     rd (\<lambda>s.
     if timestamp e = lastAccrual s \<or> totalBorrows s = 0 \<or> interestRatePerSecond s = 0
     then w_lastAccrual (timestamp e)
     else
       rb (chk (checked_sub (timestamp e) (lastAccrual s))) (\<lambda>delta.
       rb (chk (checked_mul (interestRatePerSecond s) delta)) (\<lambda>simpleInterestFactor.
       rb (chk (checked_mul (totalBorrows s) simpleInterestFactor)) (\<lambda>p.
       rb (chk (checked_div p WAD)) (\<lambda>interest.
       rb (chk (checked_add (totalBorrows s) interest)) (\<lambda>tb.
       rb (w_totalBorrows tb) (\<lambda>_.
       rb (chk (checked_mul (borrowIndex s) simpleInterestFactor)) (\<lambda>q.
       rb (chk (checked_div q WAD)) (\<lambda>inc.
       rb (chk (checked_add (borrowIndex s) inc)) (\<lambda>bi.
       rb (w_borrowIndex bi) (\<lambda>_.
       w_lastAccrual (timestamp e))))))))))))"

definition raw_increaseBorrow :: "address \<Rightarrow> nat \<Rightarrow> unit step" where
  "raw_increaseBorrow who amount =
     rd (\<lambda>s.
     rb (chk (i_borrowBalance s (accounts s who))) (\<lambda>bal.
     rb (chk (checked_add bal amount)) (\<lambda>newBalance.
     rb (chk (checked_mul newBalance WAD)) (\<lambda>p.
     rb (chk (checked_div p (borrowIndex s))) (\<lambda>base.
     rb (w_borrowBase who base) (\<lambda>_.
     rb (chk (checked_add (totalBorrows s) amount)) (\<lambda>tb.
     w_totalBorrows tb)))))))"

definition raw_decreaseBorrow :: "address \<Rightarrow> nat \<Rightarrow> nat step" where
  "raw_decreaseBorrow who amount0 =
     rd (\<lambda>s.
     rb (chk (i_borrowBalance s (accounts s who))) (\<lambda>current.
     let amount = (if amount0 > current then current else amount0) in
     if amount = 0 then chk (Inr 0)
     else
       rb (chk (checked_sub current amount)) (\<lambda>newBalance.
       rb (chk (if newBalance = 0 then Inr 0
                else bnd (checked_mul newBalance WAD) (\<lambda>p. checked_div p (borrowIndex s)))) (\<lambda>base.
       rb (w_borrowBase who base) (\<lambda>_.
       rb (chk (checked_sub (totalBorrows s) amount)) (\<lambda>tb.
       rb (w_totalBorrows tb) (\<lambda>_.
       chk (Inr amount))))))))"

definition raw_depositCollateral :: "env \<Rightarrow> nat \<Rightarrow> unit step" where
  "raw_depositCollateral e amount =
     rb (rd (\<lambda>s. chk (whenNotPaused s))) (\<lambda>_.
     rb (chk (require (amount > 0) AmountZero)) (\<lambda>_.
     rb (raw_accrueInterest e) (\<lambda>_.
     rd (\<lambda>s1.
     rb (chk (checked_add (collateral (accounts s1 (sender e))) amount)) (\<lambda>c.
     rb (w_collateral (sender e) c) (\<lambda>_.
     rb (chk (checked_add (totalCollateral s1) amount)) (\<lambda>tc.
     rb (w_totalCollateral tc) (\<lambda>_.
     raw_safeTransferFrom (collateralToken s1) (sender e) amount))))))))"

definition raw_withdrawCollateral :: "env \<Rightarrow> nat \<Rightarrow> unit step" where
  "raw_withdrawCollateral e amount =
     rb (chk (require (amount > 0) AmountZero)) (\<lambda>_.
     rb (raw_accrueInterest e) (\<lambda>_.
     rd (\<lambda>s1.
     rb (chk (require (collateral (accounts s1 (sender e)) \<ge> amount) InsufficientCollateral)) (\<lambda>_.
     rb (chk (checked_sub (collateral (accounts s1 (sender e))) amount)) (\<lambda>c.
     rb (w_collateral (sender e) c) (\<lambda>_.
     rb (chk (checked_sub (totalCollateral s1) amount)) (\<lambda>tc.
     rb (w_totalCollateral tc) (\<lambda>_.
     rd (\<lambda>s2.
     rb (chk (i_isSolvent e s2 (accounts s2 (sender e)))) (\<lambda>solvent.
     rb (chk (require solvent InsufficientCollateral)) (\<lambda>_.
     raw_safeTransfer (collateralToken s2) (sender e) amount)))))))))))"

definition raw_borrow :: "env \<Rightarrow> nat \<Rightarrow> unit step" where
  "raw_borrow e amount =
     rb (rd (\<lambda>s. chk (whenNotPaused s))) (\<lambda>_.
     rb (chk (require (amount > 0) AmountZero)) (\<lambda>_.
     rb (raw_accrueInterest e) (\<lambda>_.
     rd (\<lambda>s1.
     rb (chk (require (amount \<le> balanceOf s1 (debtToken s1) (poolAddress s1))
                InsufficientLiquidity)) (\<lambda>_.
     rb (raw_increaseBorrow (sender e) amount) (\<lambda>_.
     rd (\<lambda>s2.
     rb (chk (i_isSolvent e s2 (accounts s2 (sender e)))) (\<lambda>solvent.
     rb (chk (require solvent InsufficientCollateral)) (\<lambda>_.
     raw_safeTransfer (debtToken s2) (sender e) amount)))))))))"

definition raw_repay :: "env \<Rightarrow> nat \<Rightarrow> nat step" where
  "raw_repay e amount =
     rb (chk (require (amount > 0) AmountZero)) (\<lambda>_.
     rb (raw_accrueInterest e) (\<lambda>_.
     rb (raw_decreaseBorrow (sender e) amount) (\<lambda>actualRepay.
     rb (chk (require (actualRepay > 0) NothingToRepay)) (\<lambda>_.
     rd (\<lambda>s2.
     rb (raw_safeTransferFrom (debtToken s2) (sender e) actualRepay) (\<lambda>_.
     chk (Inr actualRepay)))))))"

definition raw_liquidate :: "env \<Rightarrow> address \<Rightarrow> nat \<Rightarrow> unit step" where
  "raw_liquidate e borrower repayAmount =
     rb (rd (\<lambda>s. chk (whenNotPaused s))) (\<lambda>_.
     rb (chk (require (borrower \<noteq> sender e) SelfLiquidation)) (\<lambda>_.
     rb (chk (require (repayAmount > 0) AmountZero)) (\<lambda>_.
     rb (raw_accrueInterest e) (\<lambda>_.
     rd (\<lambda>s1.
     rb (chk (i_isHealthy e s1 (accounts s1 borrower))) (\<lambda>healthy.
     rb (chk (require (\<not> healthy) AccountHealthy)) (\<lambda>_.
     rb (chk (i_borrowBalance s1 (accounts s1 borrower))) (\<lambda>debt.
     rb (chk (require (debt > 0) NoDebt)) (\<lambda>_.
     let actualRepay = (if repayAmount > debt then debt else repayAmount) in
     rb (raw_safeTransferFrom (debtToken s1) (sender e) actualRepay) (\<lambda>_.
     rb (raw_decreaseBorrow borrower actualRepay) (\<lambda>_.
     rd (\<lambda>s3.
     rb (chk (checked_mul actualRepay (liquidationBonus s3))) (\<lambda>p.
     rb (chk (checked_div p WAD)) (\<lambda>seize0.
     let seize = (if seize0 > collateral (accounts s3 borrower)
                  then collateral (accounts s3 borrower) else seize0) in
     rb (chk (checked_sub (collateral (accounts s3 borrower)) seize)) (\<lambda>c.
     rb (w_collateral borrower c) (\<lambda>_.
     rb (chk (checked_sub (totalCollateral s3) seize)) (\<lambda>tc.
     rb (w_totalCollateral tc) (\<lambda>_.
     raw_safeTransfer (collateralToken s3) (sender e) seize))))))))))))))))))"

definition raw_provideLiquidity :: "env \<Rightarrow> nat \<Rightarrow> unit step" where
  "raw_provideLiquidity e amount =
     rb (rd (\<lambda>s. chk (onlyManager e s))) (\<lambda>_.
     rb (chk (require (amount > 0) AmountZero)) (\<lambda>_.
     rd (\<lambda>s. raw_safeTransferFrom (debtToken s) (sender e) amount)))"

definition raw_withdrawLiquidity :: "env \<Rightarrow> nat \<Rightarrow> unit step" where
  "raw_withdrawLiquidity e amount =
     rb (rd (\<lambda>s. chk (onlyManager e s))) (\<lambda>_.
     rb (chk (require (amount > 0) AmountZero)) (\<lambda>_.
     rd (\<lambda>s.
     rb (chk (require (amount \<le> balanceOf s (debtToken s) (poolAddress s))
                InsufficientLiquidity)) (\<lambda>_.
     raw_safeTransfer (debtToken s) (sender e) amount))))"

definition raw_setRiskParameters :: "env \<Rightarrow> nat \<Rightarrow> nat \<Rightarrow> nat \<Rightarrow> unit step" where
  "raw_setRiskParameters e cf lt lb =
     rb (rd (\<lambda>s. chk (onlyManager e s))) (\<lambda>_.
     rb (chk (i_validateRiskParams cf lt lb)) (\<lambda>_.
     w_riskParameter cf lt lb))"

definition raw_setInterestRate :: "env \<Rightarrow> nat \<Rightarrow> unit step" where
  "raw_setInterestRate e newRate =
     rb (rd (\<lambda>s. chk (onlyManager e s))) (\<lambda>_.
     rb (raw_accrueInterest e) (\<lambda>_.
     w_interestRatePerSecond newRate))"

definition raw_setOracles :: "env \<Rightarrow> address \<Rightarrow> address \<Rightarrow> unit step" where
  "raw_setOracles e newCollateralOracle newDebtOracle =
     rb (rd (\<lambda>s. chk (onlyManager e s))) (\<lambda>_.
     rb (chk (require (newCollateralOracle \<noteq> 0 \<and> newDebtOracle \<noteq> 0) OracleZero)) (\<lambda>_.
     w_oracles newCollateralOracle newDebtOracle))"

definition raw_pause :: "env \<Rightarrow> unit step" where
  "raw_pause e =
     rb (rd (\<lambda>s. chk (onlyManager e s))) (\<lambda>_.
     rb (rd (\<lambda>s. chk (require (\<not> paused s) EnforcedPause))) (\<lambda>_.
     w_paused True))"

definition raw_unpause :: "env \<Rightarrow> unit step" where
  "raw_unpause e =
     rb (rd (\<lambda>s. chk (onlyManager e s))) (\<lambda>_.
     rb (rd (\<lambda>s. chk (require (paused s) ExpectedPause))) (\<lambda>_.
     w_paused False))"

text \<open>The body of each call; a view writes nothing.\<close>

fun raw_exec :: "env \<Rightarrow> call \<Rightarrow> unit step" where
  "raw_exec e (DepositCollateral amount) = raw_depositCollateral e amount"
| "raw_exec e (WithdrawCollateral amount) = raw_withdrawCollateral e amount"
| "raw_exec e (Borrow amount) = raw_borrow e amount"
| "raw_exec e (Repay amount) = rb (raw_repay e amount) (\<lambda>_. chk (Inr ()))"
| "raw_exec e (Liquidate borrower amount) = raw_liquidate e borrower amount"
| "raw_exec e (ProvideLiquidity amount) = raw_provideLiquidity e amount"
| "raw_exec e (WithdrawLiquidity amount) = raw_withdrawLiquidity e amount"
| "raw_exec e (SetRiskParameters cf lt lb) = raw_setRiskParameters e cf lt lb"
| "raw_exec e (SetInterestRate r) = raw_setInterestRate e r"
| "raw_exec e (SetOracles c d) = raw_setOracles e c d"
| "raw_exec e Pause = raw_pause e"
| "raw_exec e Unpause = raw_unpause e"
| "raw_exec e AccrueInterest = raw_accrueInterest e"
| "raw_exec e (GetAccountData user) = rd (\<lambda>s. chk (bnd (getAccountData e user s) (\<lambda>_. Inr ())))"
| "raw_exec e GetPoolData = rd (\<lambda>s. chk (bnd (getPoolData e s) (\<lambda>_. Inr ())))"
| "raw_exec e AvailableLiquidity = chk (Inr ())"
| "raw_exec e Utilization = rd (\<lambda>s. chk (bnd (utilization e s) (\<lambda>_. Inr ())))"
| "raw_exec e (GetBorrowBalance user) = rd (\<lambda>s. chk (bnd (getBorrowBalance e user s) (\<lambda>_. Inr ())))"
| "raw_exec e GetPriceData = rd (\<lambda>s. chk (bnd (getPriceData e s) (\<lambda>_. Inr ())))"

text \<open>A step is reversible when replaying the journal after it gives what replaying the
  journal before it gave.\<close>

definition reversible :: "'a step \<Rightarrow> bool" where
  "reversible m = (\<forall>r. undo (fst (snd (m r))) (snd (snd (m r))) = undo (fst r) (snd r))"

text \<open>The result of a body, with the journal dropped: the reason of the revert, or the
  returned value and the final storage.\<close>

definition result_of :: "(error + 'a) \<times> raw \<Rightarrow> error + 'a \<times> state" where
  "result_of x = (case fst x of Inl err \<Rightarrow> Inl err | Inr v \<Rightarrow> Inr (v, snd (snd x)))"

text \<open>A body agrees with a function of the state when both fail with the same reason
  or return the same value and storage, whatever the journal it starts with.\<close>

definition agrees :: "'a step \<Rightarrow> (state \<Rightarrow> error + 'a \<times> state) \<Rightarrow> bool" where
  "agrees m g = (\<forall>j s. result_of (m (j, s)) = g s)"

subsection \<open>Invariants and classifications\<close>


text \<open>The functions whose body calls \<^verbatim>\<open>_accrueInterest()\<close>.\<close>

fun accrues :: "call \<Rightarrow> bool" where
  "accrues (DepositCollateral _) = True"
| "accrues (WithdrawCollateral _) = True"
| "accrues (Borrow _) = True"
| "accrues (Repay _) = True"
| "accrues (Liquidate _ _) = True"
| "accrues (SetInterestRate _) = True"
| "accrues AccrueInterest = True"
| "accrues _ = False"

section \<open>A deployment used for concrete runs\<close>

text \<open>The deployment of the repository's test fixture (\<^verbatim>\<open>deployFixture\<close>): the admin
  is address 1, the user 2, the liquidator 3, the pool 100, the collateral and debt
  tokens 10 and 11, their price feeds 20 and 21 with 8 decimals and prices of 2 and
  1 USD, a collateral factor of 0.7, a liquidation threshold of 0.8, a bonus of 1.05 and
  an interest rate of 1e12 per second.\<close>

definition test_feeds :: "nat \<Rightarrow> nat \<Rightarrow> address \<Rightarrow> feed option" where
  "test_feeds price t =
     (\<lambda>a. if a = 20 then Some \<lparr>answer = int price, updatedAt = t, feedDecimals = 8\<rparr>
          else if a = 21 then Some \<lparr>answer = 100000000, updatedAt = t, feedDecimals = 8\<rparr>
          else None)"

definition env_at :: "address \<Rightarrow> nat \<Rightarrow> env" where
  "env_at who t = \<lparr>sender = who, timestamp = t, feeds = test_feeds 200000000 t\<rparr>"

definition test_balances :: "address \<Rightarrow> address \<Rightarrow> nat" where
  "test_balances =
     (\<lambda>t a. if t = 10 \<and> a = 2 then 1000 * WAD
            else if t = 11 \<and> a = 1 then 2000 * WAD
            else if t = 11 \<and> a = 2 then 200 * WAD
            else if t = 11 \<and> a = 3 then 500 * WAD
            else 0)"

definition deployed :: state where
  "deployed =
     \<lparr>poolAddress = 100, collateralToken = 10, debtToken = 11,
      collateralTokenDecimals = 18, debtTokenDecimals = 18,
      collateralOracle = 20, debtOracle = 21,
      collateralFactor = 700000000000000000,
      liquidationThreshold = 800000000000000000,
      liquidationBonus = 1050000000000000000,
      interestRatePerSecond = 1000000000000,
      totalCollateral = 0, totalBorrows = 0, borrowIndex = WAD, lastAccrual = 1000,
      accounts = (\<lambda>_. \<lparr>collateral = 0, borrowBase = 0\<rparr>),
      managers = (\<lambda>a. a = 1), paused = False,
      tokenBal = test_balances, tokenAllowance = (\<lambda>_ _. MAX_UINT)\<rparr>"

text \<open>The pool after the admin has provided 1000 debt tokens and the user has
  deposited 100 collateral tokens and borrowed 120 debt tokens (scenario A).\<close>

definition funded :: state where
  "funded = deployed
     \<lparr>totalCollateral := 100 * WAD, totalBorrows := 120 * WAD,
      accounts := (\<lambda>a. if a = 2 then \<lparr>collateral = 100 * WAD, borrowBase = 120 * WAD\<rparr>
                       else \<lparr>collateral = 0, borrowBase = 0\<rparr>),
      tokenBal := (\<lambda>t a. if t = 10 \<and> a = 2 then 900 * WAD
            else if t = 10 \<and> a = 100 then 100 * WAD
            else if t = 11 \<and> a = 1 then 1000 * WAD
            else if t = 11 \<and> a = 100 then 880 * WAD
            else if t = 11 \<and> a = 2 then 320 * WAD
            else if t = 11 \<and> a = 3 then 500 * WAD
            else 0),
      tokenAllowance := (\<lambda>t a. if t = 10 \<and> a = 2 then MAX_UINT - 100 * WAD
            else if t = 11 \<and> a = 1 then MAX_UINT - 1000 * WAD else MAX_UINT)\<rparr>"

text \<open>Scenario D: the liquidator calls after the collateral price has dropped to
  0.5 USD.\<close>

definition liquidator_env :: env where
  "liquidator_env = \<lparr>sender = 3, timestamp = 1000, feeds = test_feeds 50000000 1000\<rparr>"

text \<open>A debt of one unit, accrued twice at half a million seconds each: the index
  compounds to 2.25 while the interest on \<open>totalBorrows\<close> rounds down to 0 both times.\<close>

definition dust_steps :: "(env \<times> call) list" where
  "dust_steps =
     [(env_at 1 1000, ProvideLiquidity (1000 * WAD)),
      (env_at 2 1000, DepositCollateral (100 * WAD)),
      (env_at 2 1000, Borrow 1),
      (env_at 3 501000, AccrueInterest),
      (env_at 3 1001000, AccrueInterest)]"

definition dust :: state where
  "dust = deployed
     \<lparr>totalCollateral := 100 * WAD, totalBorrows := 1, borrowIndex := 2250000000000000000,
      lastAccrual := 1001000,
      accounts := (\<lambda>a. if a = 2 then \<lparr>collateral = 100 * WAD, borrowBase = 1\<rparr>
                       else \<lparr>collateral = 0, borrowBase = 0\<rparr>),
      tokenBal := (\<lambda>t a. if t = 10 \<and> a = 2 then 900 * WAD
            else if t = 10 \<and> a = 100 then 100 * WAD
            else if t = 11 \<and> a = 1 then 1000 * WAD
            else if t = 11 \<and> a = 100 then 1000 * WAD - 1
            else if t = 11 \<and> a = 2 then 200 * WAD + 1
            else if t = 11 \<and> a = 3 then 500 * WAD
            else 0),
      tokenAllowance := (\<lambda>t a. if t = 10 \<and> a = 2 then MAX_UINT - 100 * WAD
            else if t = 11 \<and> a = 1 then MAX_UINT - 1000 * WAD else MAX_UINT)\<rparr>"

section \<open>Basic facts\<close>

lemma bnd_Inr [simp]: "bnd (Inr x) f = f x"
  by (simp add: bnd_def)

lemma bnd_Inl [simp]: "bnd (Inl e) f = Inl e"
  by (simp add: bnd_def)

lemma bnd_eq_Inr_iff: "(bnd m f = Inr y) = (\<exists>x. m = Inr x \<and> f x = Inr y)"
  by (cases m) simp_all

lemma bnd_eq_Inl_iff: "(bnd m f = Inl e) = (m = Inl e \<or> (\<exists>x. m = Inr x \<and> f x = Inl e))"
  by (cases m) simp_all

lemma require_eq_Inr_iff: "(require b e = Inr u) = b"
  by (simp add: require_def)

lemma require_eq_Inl_iff: "(require b e = Inl e') = (\<not> b \<and> e' = e)"
  by (auto simp: require_def)

lemma checked_add_eq_Inr_iff: "(checked_add a b = Inr c) = (a + b \<le> MAX_UINT \<and> c = a + b)"
  by (auto simp: checked_add_def)

lemma checked_sub_eq_Inr_iff: "(checked_sub a b = Inr c) = (b \<le> a \<and> c = a - b)"
  by (auto simp: checked_sub_def)

lemma checked_mul_eq_Inr_iff: "(checked_mul a b = Inr c) = (a * b \<le> MAX_UINT \<and> c = a * b)"
  by (auto simp: checked_mul_def)

lemma checked_div_eq_Inr_iff: "(checked_div a b = Inr c) = (b \<noteq> 0 \<and> c = a div b)"
  by (auto simp: checked_div_def)

lemmas success_iffs = bnd_eq_Inr_iff require_eq_Inr_iff checked_add_eq_Inr_iff
  checked_sub_eq_Inr_iff checked_mul_eq_Inr_iff checked_div_eq_Inr_iff

lemmas arith_defs = checked_add_def checked_sub_def checked_mul_def checked_div_def
  checked_pow10_def require_def MAX_UINT_def WAD_def PRICE_PRECISION_def MAX_ORACLE_DELAY_def

lemmas fixture_defs = test_feeds_def env_at_def test_balances_def deployed_def funded_def
  liquidator_env_def dust_steps_def dust_def

lemmas internal_defs = i_accrueInterest_def i_previewAccrual_def i_borrowBalanceWithIndex_def
  i_borrowBalance_def setBorrowBase_def setCollateral_def i_increaseBorrow_def
  i_decreaseBorrow_def i_getScaledPrice_def i_tokenValueUsd_def i_collateralValueUsd_def
  i_debtValueUsd_def i_isSolvent_def i_healthFactor_def i_isHealthy_def
  i_validateRiskParams_def i_maxBorrowInDebtTokens_def whenNotPaused_def onlyManager_def
  balanceOf_def moveTokens_def safeTransferFrom_def safeTransfer_def

lemmas public_defs = depositCollateral_def withdrawCollateral_def borrow_def repay_def
  liquidate_def provideLiquidity_def withdrawLiquidity_def setRiskParameters_def
  setInterestRate_def setOracles_def pause_def unpause_def accrueInterest_def transact_def

lemma MAX_UINT_eq: "MAX_UINT = 2 ^ 256 - 1"
  by (simp add: MAX_UINT_def)



section \<open>What a successful helper returns\<close>

lemma safeTransferFrom_shape:
  "safeTransferFrom tok src amount s = Inr s' \<Longrightarrow>
     \<exists>b al. s' = s\<lparr>tokenBal := b, tokenAllowance := al\<rparr>"
  unfolding safeTransferFrom_def by (metis Inl_Inr_False sum.inject(2))

lemma safeTransfer_shape:
  "safeTransfer tok dst amount s = Inr s' \<Longrightarrow> \<exists>b. s' = s\<lparr>tokenBal := b\<rparr>"
  unfolding safeTransfer_def by (metis Inl_Inr_False sum.inject(2))

lemma i_accrueInterest_shape:
  assumes "i_accrueInterest e s = Inr s1"
  shows "\<exists>tb bi. s1 = s\<lparr>totalBorrows := tb, borrowIndex := bi, lastAccrual := timestamp e\<rparr>
            \<and> totalBorrows s \<le> tb \<and> borrowIndex s \<le> bi"
proof (cases "timestamp e = lastAccrual s \<or> totalBorrows s = 0 \<or> interestRatePerSecond s = 0")
  case True
  with assms have "s1 = s\<lparr>lastAccrual := timestamp e\<rparr>"
    by (simp add: i_accrueInterest_def)
  then have "s1 = s\<lparr>totalBorrows := totalBorrows s, borrowIndex := borrowIndex s,
                     lastAccrual := timestamp e\<rparr>"
    by simp
  then show ?thesis by blast
next
  case False
  with assms obtain i j where
    "s1 = s\<lparr>totalBorrows := totalBorrows s + i, borrowIndex := borrowIndex s + j,
             lastAccrual := timestamp e\<rparr>"
    by (simp add: i_accrueInterest_def success_iffs) blast
  then show ?thesis
    by (intro exI [of _ "totalBorrows s + i"] exI [of _ "borrowIndex s + j"]) simp
qed

lemma i_increaseBorrow_shape:
  assumes "i_increaseBorrow who amount s = Inr s'"
  shows "\<exists>base. s' = (setBorrowBase who base s)\<lparr>totalBorrows := totalBorrows s + amount\<rparr>"
proof -
  from assms obtain bal where
    "s' = (setBorrowBase who ((bal + amount) * WAD div borrowIndex s) s)
            \<lparr>totalBorrows := totalBorrows s + amount\<rparr>"
    by (auto simp add: i_increaseBorrow_def success_iffs)
  then show ?thesis ..
qed

lemma i_decreaseBorrow_cases:
  assumes "i_decreaseBorrow who amount0 s = Inr (r, s')"
  obtains current where "i_borrowBalance s (accounts s who) = Inr current"
    and "r = min amount0 current"
    and "r = 0 \<Longrightarrow> s' = s"
    and "0 < r \<Longrightarrow> r \<le> totalBorrows s"
    and "0 < r \<Longrightarrow> s' = (setBorrowBase who
               (if current - r = 0 then 0 else (current - r) * WAD div borrowIndex s) s)
               \<lparr>totalBorrows := totalBorrows s - r\<rparr>"
    and "0 < r \<Longrightarrow> current - r \<noteq> 0 \<Longrightarrow> (current - r) * WAD \<le> MAX_UINT \<and> borrowIndex s \<noteq> 0"
proof -
  from assms obtain current where c: "i_borrowBalance s (accounts s who) = Inr current"
    and rest: "(let amount = (if amount0 > current then current else amount0) in
       if amount = 0 then Inr (0, s)
       else
         bnd (checked_sub current amount) (\<lambda>newBalance.
         bnd (if newBalance = 0 then Inr 0
              else bnd (checked_mul newBalance WAD) (\<lambda>p. checked_div p (borrowIndex s))) (\<lambda>base.
         bnd (checked_sub (totalBorrows s) amount) (\<lambda>tb.
         Inr (amount, (setBorrowBase who base s)\<lparr>totalBorrows := tb\<rparr>))))) = Inr (r, s')"
    unfolding i_decreaseBorrow_def bnd_eq_Inr_iff by blast
  have m: "(if amount0 > current then current else amount0) = min amount0 current"
    by simp
  show thesis
  proof (cases "min amount0 current = 0")
    case True
    with rest m have z: "r = 0" "s' = s" by (simp_all add: Let_def)
    show thesis
    proof (rule that)
      show "i_borrowBalance s (accounts s who) = Inr current" by (rule c)
      show "r = min amount0 current" using z True by simp
      show "s' = s" by (rule z)
    qed (use z in simp_all)
  next
    case False
    with rest m have r: "r = min amount0 current"
      by (simp add: Let_def success_iffs split: if_splits)
    from rest m False r have 1: "r \<le> totalBorrows s"
      by (simp add: Let_def success_iffs split: if_splits)
    from rest m False r have 2: "s' = (setBorrowBase who
               (if current - r = 0 then 0 else (current - r) * WAD div borrowIndex s) s)
               \<lparr>totalBorrows := totalBorrows s - r\<rparr>"
      by (simp add: Let_def success_iffs split: if_splits)
    from rest m False r have 3:
      "current - r \<noteq> 0 \<Longrightarrow> (current - r) * WAD \<le> MAX_UINT \<and> borrowIndex s \<noteq> 0"
      by (simp add: Let_def success_iffs split: if_splits)
    show thesis
    proof (rule that)
      show "i_borrowBalance s (accounts s who) = Inr current" by (rule c)
      show "r = min amount0 current" by (rule r)
      show "r = 0 \<Longrightarrow> s' = s" using r False by simp
      show "r \<le> totalBorrows s" by (rule 1)
      show "s' = (setBorrowBase who
               (if current - r = 0 then 0 else (current - r) * WAD div borrowIndex s) s)
               \<lparr>totalBorrows := totalBorrows s - r\<rparr>" by (rule 2)
      show "current - r \<noteq> 0 \<Longrightarrow> (current - r) * WAD \<le> MAX_UINT \<and> borrowIndex s \<noteq> 0"
        by (rule 3)
    qed
  qed
qed

lemma i_decreaseBorrow_shape:
  assumes "i_decreaseBorrow who amount s = Inr (r, s')"
  shows "\<exists>base. s' = (setBorrowBase who base s)\<lparr>totalBorrows := totalBorrows s - r\<rparr>"
proof (rule i_decreaseBorrow_cases [OF assms])
  fix current
  assume z: "r = 0 \<Longrightarrow> s' = s"
    and p: "0 < r \<Longrightarrow> s' = (setBorrowBase who
               (if current - r = 0 then 0 else (current - r) * WAD div borrowIndex s) s)
               \<lparr>totalBorrows := totalBorrows s - r\<rparr>"
  show ?thesis
  proof (cases "r = 0")
    case True
    with z have "s' = (setBorrowBase who (borrowBase (accounts s who)) s)
                        \<lparr>totalBorrows := totalBorrows s - r\<rparr>"
      by (simp add: setBorrowBase_def)
    then show ?thesis ..
  next
    case False
    with p show ?thesis by blast
  qed
qed

section \<open>What a successful call did\<close>

text \<open>One elimination rule per public function: the checks that passed and the
  intermediate states, in the order of the source.\<close>

lemma if_greater_min: "(if (a::nat) > b then b else a) = min a b"
  by simp

lemma case_prod_eq_Inr_iff:
  "((case x of (a, b) \<Rightarrow> f a b) = Inr y) = (\<exists>a b. x = (a, b) \<and> f a b = Inr y)"
  by (cases x) simp

lemma depositCollateral_cases:
  assumes "depositCollateral e amount s = Inr s'"
  obtains s1 where "\<not> paused s" and "0 < amount" and "i_accrueInterest e s = Inr s1"
    and "collateral (accounts s1 (sender e)) + amount \<le> MAX_UINT"
    and "totalCollateral s1 + amount \<le> MAX_UINT"
    and "safeTransferFrom (collateralToken s1) (sender e) amount
           ((setCollateral (sender e) (collateral (accounts s1 (sender e)) + amount) s1)
              \<lparr>totalCollateral := totalCollateral s1 + amount\<rparr>) = Inr s'"
  using assms unfolding depositCollateral_def whenNotPaused_def success_iffs
  apply (elim exE conjE)
  apply hypsubst?
  apply (rule that; (assumption | rule refl))
  done

lemma withdrawCollateral_cases:
  assumes "withdrawCollateral e amount s = Inr s'"
  obtains s1 s2 ok where "0 < amount" and "i_accrueInterest e s = Inr s1"
    and "amount \<le> collateral (accounts s1 (sender e))"
    and "amount \<le> totalCollateral s1"
    and "s2 = (setCollateral (sender e) (collateral (accounts s1 (sender e)) - amount) s1)
              \<lparr>totalCollateral := totalCollateral s1 - amount\<rparr>"
    and "i_isSolvent e s2 (accounts s2 (sender e)) = Inr ok" and "ok"
    and "safeTransfer (collateralToken s2) (sender e) amount s2 = Inr s'"
  using assms unfolding withdrawCollateral_def Let_def success_iffs
  apply (elim exE conjE)
  apply hypsubst?
  apply (rule that; (assumption | rule refl))
  done

lemma borrow_cases:
  assumes "borrow e amount s = Inr s'"
  obtains s1 s2 ok where "\<not> paused s" and "0 < amount" and "i_accrueInterest e s = Inr s1"
    and "amount \<le> balanceOf s1 (debtToken s1) (poolAddress s1)"
    and "i_increaseBorrow (sender e) amount s1 = Inr s2"
    and "i_isSolvent e s2 (accounts s2 (sender e)) = Inr ok" and "ok"
    and "safeTransfer (debtToken s2) (sender e) amount s2 = Inr s'"
  using assms unfolding borrow_def whenNotPaused_def success_iffs
  apply (elim exE conjE)
  apply hypsubst?
  apply (rule that; (assumption | rule refl))
  done

lemma repay_cases:
  assumes "repay e amount s = Inr (r, s')"
  obtains s1 s2 where "0 < amount" and "i_accrueInterest e s = Inr s1"
    and "i_decreaseBorrow (sender e) amount s1 = Inr (r, s2)"
    and "0 < r"
    and "safeTransferFrom (debtToken s2) (sender e) r s2 = Inr s'"
  using assms unfolding repay_def success_iffs case_prod_eq_Inr_iff sum.inject prod.inject
  apply (elim exE conjE)
  apply hypsubst?
  apply (rule that; (assumption | rule refl))
  done

lemma provideLiquidity_cases:
  assumes "provideLiquidity e amount s = Inr s'"
  obtains "managers s (sender e)" and "0 < amount"
    and "safeTransferFrom (debtToken s) (sender e) amount s = Inr s'"
  using assms unfolding provideLiquidity_def onlyManager_def success_iffs
  apply (elim exE conjE)
  apply (rule that; assumption)
  done

lemma withdrawLiquidity_cases:
  assumes "withdrawLiquidity e amount s = Inr s'"
  obtains "managers s (sender e)" and "0 < amount"
    and "amount \<le> balanceOf s (debtToken s) (poolAddress s)"
    and "safeTransfer (debtToken s) (sender e) amount s = Inr s'"
  using assms unfolding withdrawLiquidity_def onlyManager_def success_iffs
  apply (elim exE conjE)
  apply (rule that; assumption)
  done

lemma setRiskParameters_cases:
  assumes "setRiskParameters e cf lt lb s = Inr s'"
  obtains "managers s (sender e)" and "0 < cf" and "cf \<le> WAD" and "cf \<le> lt" and "lt \<le> WAD"
    and "WAD \<le> lb"
    and "s' = s\<lparr>collateralFactor := cf, liquidationThreshold := lt, liquidationBonus := lb\<rparr>"
  using assms
  unfolding setRiskParameters_def i_validateRiskParams_def onlyManager_def success_iffs sum.inject
  apply (elim exE conjE)
  apply (rule that; (assumption | erule sym))
  done

lemma setInterestRate_cases:
  assumes "setInterestRate e newRate s = Inr s'"
  obtains s1 where "managers s (sender e)" and "i_accrueInterest e s = Inr s1"
    and "s' = s1\<lparr>interestRatePerSecond := newRate\<rparr>"
  using assms unfolding setInterestRate_def onlyManager_def success_iffs sum.inject
  apply (elim exE conjE)
  apply (rule that; (assumption | erule sym))
  done

lemma setOracles_cases:
  assumes "setOracles e c d s = Inr s'"
  obtains "managers s (sender e)" and "c \<noteq> 0" and "d \<noteq> 0"
    and "s' = s\<lparr>collateralOracle := c, debtOracle := d\<rparr>"
  using assms unfolding setOracles_def onlyManager_def success_iffs sum.inject
  apply (elim exE conjE)
  apply (rule that; (assumption | erule sym))
  done

lemma pause_cases:
  assumes "pause e s = Inr s'"
  obtains "managers s (sender e)" and "\<not> paused s" and "s' = s\<lparr>paused := True\<rparr>"
  using assms unfolding pause_def onlyManager_def success_iffs sum.inject
  apply (elim exE conjE)
  apply (rule that; (assumption | erule sym))
  done

lemma unpause_cases:
  assumes "unpause e s = Inr s'"
  obtains "managers s (sender e)" and "paused s" and "s' = s\<lparr>paused := False\<rparr>"
  using assms unfolding unpause_def onlyManager_def success_iffs sum.inject
  apply (elim exE conjE)
  apply (rule that; (assumption | erule sym))
  done

lemma liquidate_cases:
  assumes "liquidate e borrower repayAmount s = Inr s'"
  obtains s1 h debt s2 r s3 seize where "\<not> paused s" and "borrower \<noteq> sender e" and "0 < repayAmount"
    and "i_accrueInterest e s = Inr s1"
    and "i_healthFactor e s1 (collateral (accounts s1 borrower)) (borrowBase (accounts s1 borrower))
           (borrowIndex s1) (liquidationThreshold s1) = Inr h"
    and "\<not> WAD \<le> h"
    and "i_borrowBalance s1 (accounts s1 borrower) = Inr debt"
    and "0 < debt"
    and "safeTransferFrom (debtToken s1) (sender e) (min repayAmount debt) s1 = Inr s2"
    and "i_decreaseBorrow borrower (min repayAmount debt) s2 = Inr (r, s3)"
    and "min repayAmount debt * liquidationBonus s3 \<le> MAX_UINT"
    and "seize = min (min repayAmount debt * liquidationBonus s3 div WAD) (collateral (accounts s3 borrower))"
    and "seize \<le> totalCollateral s3"
    and "safeTransfer (collateralToken s3) (sender e) seize
           ((setCollateral borrower (collateral (accounts s3 borrower) - seize) s3)
              \<lparr>totalCollateral := totalCollateral s3 - seize\<rparr>) = Inr s'"
  using assms
  unfolding liquidate_def whenNotPaused_def i_isHealthy_def Let_def if_greater_min success_iffs
    case_prod_eq_Inr_iff sum.inject
  apply (elim exE conjE)
  apply hypsubst?
  apply (rule that; (assumption | rule refl))
  done

lemma accruing_call_summary:
  assumes "accrues c" and "exec e c s = Inr s'"
  shows "\<exists>s1. i_accrueInterest e s = Inr s1 \<and> borrowIndex s' = borrowIndex s1
               \<and> lastAccrual s' = lastAccrual s1"
proof (cases c)
  case (DepositCollateral amount)
  with assms have "depositCollateral e amount s = Inr s'" by simp
  then show ?thesis
    by (rule depositCollateral_cases)
       (auto dest!: safeTransferFrom_shape simp: setCollateral_def)
next
  case (WithdrawCollateral amount)
  with assms have "withdrawCollateral e amount s = Inr s'" by simp
  then show ?thesis
    by (rule withdrawCollateral_cases)
       (auto dest!: safeTransfer_shape simp: setCollateral_def)
next
  case (Borrow amount)
  with assms have "borrow e amount s = Inr s'" by simp
  then show ?thesis
    by (rule borrow_cases)
       (auto dest!: safeTransfer_shape i_increaseBorrow_shape simp: setBorrowBase_def)
next
  case (Repay amount)
  with assms obtain r where "repay e amount s = Inr (r, s')"
    by (auto simp: success_iffs)
  then show ?thesis
    by (rule repay_cases)
       (auto dest!: safeTransferFrom_shape i_decreaseBorrow_shape simp: setBorrowBase_def)
next
  case (Liquidate borrower amount)
  with assms have "liquidate e borrower amount s = Inr s'" by simp
  then show ?thesis
    by (rule liquidate_cases)
       (auto dest!: safeTransferFrom_shape safeTransfer_shape i_decreaseBorrow_shape
             simp: setBorrowBase_def setCollateral_def)
next
  case (SetInterestRate r)
  with assms have "setInterestRate e r s = Inr s'" by simp
  then show ?thesis
    by (rule setInterestRate_cases) auto
next
  case AccrueInterest
  with assms show ?thesis by (simp add: accrueInterest_def)
qed (use assms in simp_all)

lemma other_call_summary:
  assumes "\<not> accrues c" and "exec e c s = Inr s'"
  shows "borrowIndex s' = borrowIndex s \<and> lastAccrual s' = lastAccrual s
         \<and> totalBorrows s' = totalBorrows s"
proof (cases c)
  case (ProvideLiquidity amount)
  with assms have "provideLiquidity e amount s = Inr s'" by simp
  then show ?thesis
    by (rule provideLiquidity_cases) (auto dest!: safeTransferFrom_shape)
next
  case (WithdrawLiquidity amount)
  with assms have "withdrawLiquidity e amount s = Inr s'" by simp
  then show ?thesis
    by (rule withdrawLiquidity_cases) (auto dest!: safeTransfer_shape)
next
  case (SetRiskParameters cf lt lb)
  with assms have "setRiskParameters e cf lt lb s = Inr s'" by simp
  then show ?thesis
    by (rule setRiskParameters_cases) simp
next
  case (SetOracles c d)
  with assms have "setOracles e c d s = Inr s'" by simp
  then show ?thesis
    by (rule setOracles_cases) simp
next
  case Pause
  with assms have "pause e s = Inr s'" by simp
  then show ?thesis
    by (rule pause_cases) simp
next
  case Unpause
  with assms have "unpause e s = Inr s'" by simp
  then show ?thesis
    by (rule unpause_cases) simp
qed (use assms in \<open>auto simp: success_iffs\<close>)


section \<open>Atomicity\<close>

text \<open>Every write of a body can be undone, so every body is reversible; and each
  body, statement by statement, computes what the function of the same name above
  computes.\<close>

lemma reversible_chk: "reversible (chk m)"
  by (simp add: reversible_def chk_def)

lemma reversible_rd: "(\<And>s. reversible (f s)) \<Longrightarrow> reversible (rd f)"
  by (simp add: reversible_def rd_def)

lemma reversible_rb:
  assumes "reversible m" and "\<And>x. reversible (f x)"
  shows "reversible (rb m f)"
proof (unfold reversible_def, intro allI)
  fix r
  obtain out r' where m: "m r = (out, r')" by (cases "m r")
  from assms(1) have "undo (fst (snd (m r))) (snd (snd (m r))) = undo (fst r) (snd r)"
    unfolding reversible_def by (rule spec)
  with m have 1: "undo (fst r') (snd r') = undo (fst r) (snd r)"
    by simp
  show "undo (fst (snd (rb m f r))) (snd (snd (rb m f r))) = undo (fst r) (snd r)"
  proof (cases out)
    case (Inl err)
    with m 1 show ?thesis by (simp add: rb_def)
  next
    case (Inr x)
    from assms(2) [of x] have "undo (fst (snd (f x r'))) (snd (snd (f x r'))) = undo (fst r') (snd r')"
      unfolding reversible_def by (rule spec)
    with m 1 Inr show ?thesis by (simp add: rb_def)
  qed
qed

lemma reversible_if: "reversible a \<Longrightarrow> reversible b \<Longrightarrow> reversible (if c then a else b)"
  by simp

lemma reversible_sstore:
  assumes "\<And>s. back s (upd s) = s"
  shows "reversible (sstore upd back)"
  by (simp add: reversible_def sstore_def undo_def assms)

lemma reversible_writes:
  "reversible (w_totalCollateral v)" "reversible (w_totalBorrows v)" "reversible (w_borrowIndex v)"
  "reversible (w_lastAccrual v)" "reversible (w_collateral who v)" "reversible (w_borrowBase who v)"
  "reversible (w_riskParameter cf lt lb)" "reversible (w_interestRatePerSecond v)"
  "reversible (w_oracles c d)" "reversible (w_paused p)" "reversible (w_tokenBal b)"
  "reversible (w_tokenAllowance b)"
  unfolding w_totalCollateral_def w_totalBorrows_def w_borrowIndex_def w_lastAccrual_def
    w_collateral_def w_borrowBase_def w_riskParameter_def w_interestRatePerSecond_def
    w_oracles_def w_paused_def w_tokenBal_def w_tokenAllowance_def
  by (intro reversible_rb reversible_sstore; simp add: setCollateral_def setBorrowBase_def)+

lemmas reversible_rules = reversible_chk reversible_rd reversible_rb reversible_if reversible_writes

lemma reversible_safeTransferFrom: "reversible (raw_safeTransferFrom tok src amount)"
  unfolding raw_safeTransferFrom_def by (intro reversible_rules)

lemma reversible_safeTransfer: "reversible (raw_safeTransfer tok dst amount)"
  unfolding raw_safeTransfer_def by (intro reversible_rules)

lemma reversible_accrueInterest: "reversible (raw_accrueInterest e)"
  unfolding raw_accrueInterest_def by (intro reversible_rules)

lemma reversible_increaseBorrow: "reversible (raw_increaseBorrow who amount)"
  unfolding raw_increaseBorrow_def by (intro reversible_rules)

lemma reversible_decreaseBorrow: "reversible (raw_decreaseBorrow who amount)"
  unfolding raw_decreaseBorrow_def Let_def by (intro reversible_rules)

lemmas reversible_helpers = reversible_safeTransferFrom reversible_safeTransfer
  reversible_accrueInterest reversible_increaseBorrow reversible_decreaseBorrow

lemma reversible_exec: "reversible (raw_exec e c)"
proof (cases c)
  case (DepositCollateral amount)
  then show ?thesis
    unfolding raw_exec.simps DepositCollateral raw_depositCollateral_def
    by (intro reversible_rules reversible_helpers)
next
  case (WithdrawCollateral amount)
  then show ?thesis
    unfolding raw_exec.simps WithdrawCollateral raw_withdrawCollateral_def
    by (intro reversible_rules reversible_helpers)
next
  case (Borrow amount)
  then show ?thesis
    unfolding raw_exec.simps Borrow raw_borrow_def
    by (intro reversible_rules reversible_helpers)
next
  case (Repay amount)
  then show ?thesis
    unfolding raw_exec.simps Repay raw_repay_def
    by (intro reversible_rules reversible_helpers)
next
  case (Liquidate borrower amount)
  then show ?thesis
    unfolding raw_exec.simps Liquidate raw_liquidate_def Let_def
    by (intro reversible_rules reversible_helpers)
next
  case (ProvideLiquidity amount)
  then show ?thesis
    unfolding raw_exec.simps ProvideLiquidity raw_provideLiquidity_def
    by (intro reversible_rules reversible_helpers)
next
  case (WithdrawLiquidity amount)
  then show ?thesis
    unfolding raw_exec.simps WithdrawLiquidity raw_withdrawLiquidity_def
    by (intro reversible_rules reversible_helpers)
next
  case (SetRiskParameters cf lt lb)
  then show ?thesis
    unfolding raw_exec.simps SetRiskParameters raw_setRiskParameters_def
    by (intro reversible_rules reversible_helpers)
next
  case (SetInterestRate r)
  then show ?thesis
    unfolding raw_exec.simps SetInterestRate raw_setInterestRate_def
    by (intro reversible_rules reversible_helpers)
next
  case (SetOracles c d)
  then show ?thesis
    unfolding raw_exec.simps SetOracles raw_setOracles_def
    by (intro reversible_rules reversible_helpers)
next
  case Pause
  then show ?thesis
    unfolding raw_exec.simps Pause raw_pause_def
    by (intro reversible_rules reversible_helpers)
next
  case Unpause
  then show ?thesis
    unfolding raw_exec.simps Unpause raw_unpause_def
    by (intro reversible_rules reversible_helpers)
next
  case AccrueInterest
  then show ?thesis
    by (simp add: reversible_helpers)
qed (simp_all add: reversible_rules)

lemma bnd_assoc: "bnd (bnd m f) g = bnd m (\<lambda>x. bnd (f x) g)"
  by (cases m) simp_all

lemma bnd_if: "bnd (if c then a else b) g = (if c then bnd a g else bnd b g)"
  by simp

lemma agrees_chk: "agrees (chk m) (\<lambda>s. bnd m (\<lambda>v. Inr (v, s)))"
  by (cases m) (simp_all add: agrees_def chk_def result_of_def)

lemma agrees_rd: "(\<And>t. agrees (f t) (g t)) \<Longrightarrow> agrees (rd f) (\<lambda>s. g s s)"
  by (simp add: agrees_def rd_def)

lemma agrees_sstore: "agrees (sstore upd back) (\<lambda>s. Inr ((), upd s))"
  by (simp add: agrees_def sstore_def result_of_def)

lemma agrees_if:
  "agrees a ga \<Longrightarrow> agrees b gb \<Longrightarrow> agrees (if c then a else b) (if c then ga else gb)"
  by simp

lemma agrees_rb:
  assumes "agrees m g" and "\<And>x. agrees (f x) (h x)"
  shows "agrees (rb m f) (\<lambda>s. bnd (g s) (\<lambda>(x, s'). h x s'))"
proof (unfold agrees_def, intro allI)
  fix j s
  obtain out j' s' where m: "m (j, s) = (out, (j', s'))" by (cases "m (j, s)") auto
  from assms(1) have g: "g s = result_of (m (j, s))"
    by (simp add: agrees_def)
  show "result_of (rb m f (j, s)) = bnd (g s) (\<lambda>(x, s'). h x s')"
  proof (cases out)
    case (Inl err)
    with m g show ?thesis by (simp add: rb_def result_of_def)
  next
    case (Inr x)
    from assms(2) [of x] have "result_of (f x (j', s')) = h x s'"
      by (simp add: agrees_def)
    with m g Inr show ?thesis by (simp add: rb_def result_of_def)
  qed
qed

lemma agrees_eq: "agrees m g \<Longrightarrow> (\<And>s. g s = g' s) \<Longrightarrow> agrees m g'"
  by (simp add: agrees_def)

lemma agrees_writes:
  "agrees (w_totalCollateral v) (\<lambda>s. Inr ((), s\<lparr>totalCollateral := v\<rparr>))"
  "agrees (w_totalBorrows v) (\<lambda>s. Inr ((), s\<lparr>totalBorrows := v\<rparr>))"
  "agrees (w_borrowIndex v) (\<lambda>s. Inr ((), s\<lparr>borrowIndex := v\<rparr>))"
  "agrees (w_lastAccrual v) (\<lambda>s. Inr ((), s\<lparr>lastAccrual := v\<rparr>))"
  "agrees (w_collateral who v) (\<lambda>s. Inr ((), setCollateral who v s))"
  "agrees (w_borrowBase who v) (\<lambda>s. Inr ((), setBorrowBase who v s))"
  "agrees (w_interestRatePerSecond v) (\<lambda>s. Inr ((), s\<lparr>interestRatePerSecond := v\<rparr>))"
  "agrees (w_paused p) (\<lambda>s. Inr ((), s\<lparr>paused := p\<rparr>))"
  "agrees (w_tokenBal b) (\<lambda>s. Inr ((), s\<lparr>tokenBal := b\<rparr>))"
  "agrees (w_tokenAllowance b) (\<lambda>s. Inr ((), s\<lparr>tokenAllowance := b\<rparr>))"
  unfolding w_totalCollateral_def w_totalBorrows_def w_borrowIndex_def w_lastAccrual_def
    w_collateral_def w_borrowBase_def w_interestRatePerSecond_def
    w_paused_def w_tokenBal_def w_tokenAllowance_def
  by (rule agrees_sstore)+

lemma agrees_riskParameter:
  "agrees (w_riskParameter cf lt lb)
     (\<lambda>s. Inr ((), s\<lparr>collateralFactor := cf, liquidationThreshold := lt, liquidationBonus := lb\<rparr>))"
  unfolding w_riskParameter_def
  by (rule agrees_eq, (rule agrees_rb agrees_sstore)+) simp

lemma agrees_oracles:
  "agrees (w_oracles c d) (\<lambda>s. Inr ((), s\<lparr>collateralOracle := c, debtOracle := d\<rparr>))"
  unfolding w_oracles_def
  by (rule agrees_eq, (rule agrees_rb agrees_sstore)+) simp

lemmas agrees_rules = agrees_chk agrees_rd agrees_rb agrees_if agrees_writes agrees_riskParameter
  agrees_oracles

lemma agrees_safeTransferFrom:
  "agrees (raw_safeTransferFrom tok src amount)
          (\<lambda>s. bnd (safeTransferFrom tok src amount s) (\<lambda>s'. Inr ((), s')))"
  unfolding raw_safeTransferFrom_def
  by (rule agrees_eq, (rule agrees_rules)+) (simp add: safeTransferFrom_def fun_upd_def)

lemma agrees_safeTransfer:
  "agrees (raw_safeTransfer tok dst amount)
          (\<lambda>s. bnd (safeTransfer tok dst amount s) (\<lambda>s'. Inr ((), s')))"
  unfolding raw_safeTransfer_def
  by (rule agrees_eq, (rule agrees_rules)+) (simp add: safeTransfer_def)

lemma agrees_accrueInterest:
  "agrees (raw_accrueInterest e) (\<lambda>s. bnd (i_accrueInterest e s) (\<lambda>s'. Inr ((), s')))"
  unfolding raw_accrueInterest_def
  by (rule agrees_eq, (rule agrees_rules)+) (simp add: i_accrueInterest_def bnd_assoc cong: if_cong)

lemma agrees_increaseBorrow:
  "agrees (raw_increaseBorrow who amount)
          (\<lambda>s. bnd (i_increaseBorrow who amount s) (\<lambda>s'. Inr ((), s')))"
  unfolding raw_increaseBorrow_def
  by (rule agrees_eq, (rule agrees_rules)+)
     (simp add: i_increaseBorrow_def i_borrowBalance_def setBorrowBase_def bnd_assoc)

lemma agrees_decreaseBorrow:
  "agrees (raw_decreaseBorrow who amount) (\<lambda>s. i_decreaseBorrow who amount s)"
  unfolding raw_decreaseBorrow_def Let_def
  by (rule agrees_eq, (rule agrees_rules)+)
     (simp add: i_decreaseBorrow_def i_borrowBalance_def setBorrowBase_def Let_def bnd_assoc
           if_distribR cong: if_cong)

lemmas agrees_helpers = agrees_safeTransferFrom agrees_safeTransfer agrees_accrueInterest
  agrees_increaseBorrow agrees_decreaseBorrow

lemmas agree_simps = bnd_assoc if_distribR Let_def setCollateral_def setBorrowBase_def

lemma agrees_depositCollateral:
  "agrees (raw_depositCollateral e amount)
          (\<lambda>s. bnd (depositCollateral e amount s) (\<lambda>s'. Inr ((), s')))"
  unfolding raw_depositCollateral_def
  by (rule agrees_eq, (rule agrees_rules agrees_helpers)+)
     (simp add: depositCollateral_def agree_simps cong: if_cong)

lemma agrees_withdrawCollateral:
  "agrees (raw_withdrawCollateral e amount)
          (\<lambda>s. bnd (withdrawCollateral e amount s) (\<lambda>s'. Inr ((), s')))"
  unfolding raw_withdrawCollateral_def
  by (rule agrees_eq, (rule agrees_rules agrees_helpers)+)
     (simp add: withdrawCollateral_def agree_simps cong: if_cong)

lemma agrees_borrow:
  "agrees (raw_borrow e amount) (\<lambda>s. bnd (borrow e amount s) (\<lambda>s'. Inr ((), s')))"
  unfolding raw_borrow_def
  by (rule agrees_eq, (rule agrees_rules agrees_helpers)+)
     (simp add: borrow_def agree_simps cong: if_cong)

lemma agrees_repay:
  "agrees (raw_repay e amount) (\<lambda>s. repay e amount s)"
  unfolding raw_repay_def
  by (rule agrees_eq, (rule agrees_rules agrees_helpers)+)
     (simp add: repay_def agree_simps case_prod_unfold cong: if_cong)

lemma agrees_liquidate:
  "agrees (raw_liquidate e borrower repayAmount)
          (\<lambda>s. bnd (liquidate e borrower repayAmount s) (\<lambda>s'. Inr ((), s')))"
  unfolding raw_liquidate_def Let_def
  by (rule agrees_eq, (rule agrees_rules agrees_helpers)+)
     (simp add: liquidate_def agree_simps case_prod_unfold cong: if_cong)

lemma agrees_provideLiquidity:
  "agrees (raw_provideLiquidity e amount)
          (\<lambda>s. bnd (provideLiquidity e amount s) (\<lambda>s'. Inr ((), s')))"
  unfolding raw_provideLiquidity_def
  by (rule agrees_eq, (rule agrees_rules agrees_helpers)+)
     (simp add: provideLiquidity_def agree_simps)

lemma agrees_withdrawLiquidity:
  "agrees (raw_withdrawLiquidity e amount)
          (\<lambda>s. bnd (withdrawLiquidity e amount s) (\<lambda>s'. Inr ((), s')))"
  unfolding raw_withdrawLiquidity_def
  by (rule agrees_eq, (rule agrees_rules agrees_helpers)+)
     (simp add: withdrawLiquidity_def agree_simps)

lemma agrees_setRiskParameters:
  "agrees (raw_setRiskParameters e cf lt lb)
          (\<lambda>s. bnd (setRiskParameters e cf lt lb s) (\<lambda>s'. Inr ((), s')))"
  unfolding raw_setRiskParameters_def
  by (rule agrees_eq, (rule agrees_rules agrees_helpers)+)
     (simp add: setRiskParameters_def agree_simps)

lemma agrees_setInterestRate:
  "agrees (raw_setInterestRate e r)
          (\<lambda>s. bnd (setInterestRate e r s) (\<lambda>s'. Inr ((), s')))"
  unfolding raw_setInterestRate_def
  by (rule agrees_eq, (rule agrees_rules agrees_helpers)+)
     (simp add: setInterestRate_def agree_simps)

lemma agrees_setOracles:
  "agrees (raw_setOracles e c d)
          (\<lambda>s. bnd (setOracles e c d s) (\<lambda>s'. Inr ((), s')))"
  unfolding raw_setOracles_def
  by (rule agrees_eq, (rule agrees_rules agrees_helpers)+)
     (simp add: setOracles_def agree_simps)

lemma agrees_pause:
  "agrees (raw_pause e) (\<lambda>s. bnd (pause e s) (\<lambda>s'. Inr ((), s')))"
  unfolding raw_pause_def
  by (rule agrees_eq, (rule agrees_rules agrees_helpers)+)
     (simp add: pause_def agree_simps)

lemma agrees_unpause:
  "agrees (raw_unpause e) (\<lambda>s. bnd (unpause e s) (\<lambda>s'. Inr ((), s')))"
  unfolding raw_unpause_def
  by (rule agrees_eq, (rule agrees_rules agrees_helpers)+)
     (simp add: unpause_def agree_simps)

lemma agrees_exec:
  "agrees (raw_exec e c) (\<lambda>s. bnd (exec e c s) (\<lambda>s'. Inr ((), s')))"
proof (cases c)
  case (DepositCollateral amount)
  then show ?thesis by (simp add: agrees_depositCollateral)
next
  case (WithdrawCollateral amount)
  then show ?thesis by (simp add: agrees_withdrawCollateral)
next
  case (Borrow amount)
  then show ?thesis by (simp add: agrees_borrow)
next
  case (Repay amount)
  have "agrees (rb (raw_repay e amount) (\<lambda>_. chk (Inr ())))
          (\<lambda>s. bnd (bnd (repay e amount s) (\<lambda>(_, s'). Inr s')) (\<lambda>s'. Inr ((), s')))"
    by (rule agrees_eq, (rule agrees_rules agrees_repay)+)
       (simp add: agree_simps case_prod_unfold)
  with Repay show ?thesis by simp
next
  case (Liquidate borrower amount)
  then show ?thesis by (simp add: agrees_liquidate)
next
  case (ProvideLiquidity amount)
  then show ?thesis by (simp add: agrees_provideLiquidity)
next
  case (WithdrawLiquidity amount)
  then show ?thesis by (simp add: agrees_withdrawLiquidity)
next
  case (SetRiskParameters cf lt lb)
  then show ?thesis by (simp add: agrees_setRiskParameters)
next
  case (SetInterestRate r)
  then show ?thesis by (simp add: agrees_setInterestRate)
next
  case (SetOracles c d)
  then show ?thesis by (simp add: agrees_setOracles)
next
  case Pause
  then show ?thesis by (simp add: agrees_pause)
next
  case Unpause
  then show ?thesis by (simp add: agrees_unpause)
next
  case AccrueInterest
  then show ?thesis by (simp add: agrees_accrueInterest accrueInterest_def)
next
  case (GetAccountData user)
  have "agrees (rd (\<lambda>s. chk (bnd (getAccountData e user s) (\<lambda>_. Inr ()))))
          (\<lambda>s. bnd (bnd (getAccountData e user s) (\<lambda>_. Inr s)) (\<lambda>s'. Inr ((), s')))"
    by (rule agrees_eq, (rule agrees_rules)+) (simp add: bnd_assoc)
  with GetAccountData show ?thesis by simp
next
  case GetPoolData
  have "agrees (rd (\<lambda>s. chk (bnd (getPoolData e s) (\<lambda>_. Inr ()))))
          (\<lambda>s. bnd (bnd (getPoolData e s) (\<lambda>_. Inr s)) (\<lambda>s'. Inr ((), s')))"
    by (rule agrees_eq, (rule agrees_rules)+) (simp add: bnd_assoc)
  with GetPoolData show ?thesis by simp
next
  case AvailableLiquidity
  have "agrees (chk (Inr ())) (\<lambda>s. Inr ((), s))"
    by (rule agrees_eq, rule agrees_chk) simp
  with AvailableLiquidity show ?thesis by simp
next
  case Utilization
  have "agrees (rd (\<lambda>s. chk (bnd (utilization e s) (\<lambda>_. Inr ()))))
          (\<lambda>s. bnd (bnd (utilization e s) (\<lambda>_. Inr s)) (\<lambda>s'. Inr ((), s')))"
    by (rule agrees_eq, (rule agrees_rules)+) (simp add: bnd_assoc)
  with Utilization show ?thesis by simp
next
  case (GetBorrowBalance user)
  have "agrees (rd (\<lambda>s. chk (bnd (getBorrowBalance e user s) (\<lambda>_. Inr ()))))
          (\<lambda>s. bnd (bnd (getBorrowBalance e user s) (\<lambda>_. Inr s)) (\<lambda>s'. Inr ((), s')))"
    by (rule agrees_eq, (rule agrees_rules)+) (simp add: bnd_assoc)
  with GetBorrowBalance show ?thesis by simp
next
  case GetPriceData
  have "agrees (rd (\<lambda>s. chk (bnd (getPriceData e s) (\<lambda>_. Inr ()))))
          (\<lambda>s. bnd (bnd (getPriceData e s) (\<lambda>_. Inr s)) (\<lambda>s'. Inr ((), s')))"
    by (rule agrees_eq, (rule agrees_rules)+) (simp add: bnd_assoc)
  with GetPriceData show ?thesis by simp
qed

text \<open>Conversely, every call that \<open>exec\<close> reports as failed is a body that stops and
  whose writes the revert undoes.\<close>

lemma failing_call_has_run:
  assumes "exec e c s = Inl err"
  shows "\<exists>j t. raw_exec e c ([], s) = (Inl err, (j, t)) \<and> undo j t = s"
proof -
  obtain out j t where x: "raw_exec e c ([], s) = (out, (j, t))"
    by (cases "raw_exec e c ([], s)") auto
  have "result_of (raw_exec e c ([], s)) = bnd (exec e c s) (\<lambda>s'. Inr ((), s'))"
    using agrees_exec [of e c] by (simp add: agrees_def)
  with assms x have "out = Inl err"
    by (cases out) (simp_all add: result_of_def)
  with x have y: "raw_exec e c ([], s) = (Inl err, (j, t))"
    by simp
  have "undo (fst (snd (raw_exec e c (a, b)))) (snd (snd (raw_exec e c (a, b)))) = undo a b"
    for a b
    using reversible_exec [of e c] by (simp add: reversible_def)
  from this [of "[]" s] y have "undo j t = s"
    by (simp add: undo_def)
  with y show ?thesis by blast
qed

text \<open>Claim C1. A call that fails stops with some of its writes made; the revert puts
  every overwritten value back, and the state is then exactly the state before the call:
  the totals, the borrow index, the accrual timestamp, the risk parameters, the oracles
  and every account. This holds for every call, the ten mutating functions among them,
  and for every reason of failure; the body that stops is the one whose result
  \<open>exec\<close> and \<open>transact\<close> report.\<close>

theorem failed_call_is_undone:
  assumes "raw_exec e c ([], s) = (Inl err, (j, t))"
  shows "undo j t = s \<and> exec e c s = Inl err \<and> transact e c s = (Some err, s)"
proof -
  have r: "undo (fst (snd (raw_exec e c (a, b)))) (snd (snd (raw_exec e c (a, b)))) = undo a b"
    for a b
    using reversible_exec [of e c] by (simp add: reversible_def)
  from r [of "[]" s] assms have 1: "undo j t = s"
    by (simp add: undo_def)
  have "result_of (raw_exec e c ([], s)) = bnd (exec e c s) (\<lambda>s'. Inr ((), s'))"
    using agrees_exec [of e c] by (simp add: agrees_def)
  with assms have "bnd (exec e c s) (\<lambda>s'. Inr ((), s')) = Inl err"
    by (simp add: result_of_def)
  then have 2: "exec e c s = Inl err"
    by (cases "exec e c s") simp_all
  then have 3: "transact e c s = (Some err, s)"
    by (simp add: transact_def)
  from 1 2 3 show ?thesis by simp
qed

text \<open>The repository's test \<^verbatim>\<open>prevents withdrawing collateral below required health\<close>:
  with 100 collateral tokens deposited and 120 debt tokens borrowed, withdrawing 90
  fails at the solvency check. The body has by then debited the 90 tokens from the
  account and from \<open>totalCollateral\<close>; replaying the journal gives the state back.\<close>

theorem failed_call_is_undone_witness:
  "\<exists>j t. raw_exec (env_at 2 1000) (WithdrawCollateral (90 * WAD)) ([], funded)
            = (Inl InsufficientCollateral, (j, t))
     \<and> collateral (accounts t 2) = 10 * WAD \<and> totalCollateral t = 10 * WAD
     \<and> collateral (accounts funded 2) = 100 * WAD
     \<and> undo j t = funded
     \<and> transact (env_at 2 1000) (WithdrawCollateral (90 * WAD)) funded
         = (Some InsufficientCollateral, funded)"
proof -
  have "\<exists>j t. raw_exec (env_at 2 1000) (WithdrawCollateral (90 * WAD)) ([], funded)
            = (Inl InsufficientCollateral, (j, t))
     \<and> collateral (accounts t 2) = 10 * WAD \<and> totalCollateral t = 10 * WAD"
    by (simp add: raw_withdrawCollateral_def raw_accrueInterest_def raw_safeTransfer_def
        rb_def rd_def chk_def sstore_def w_lastAccrual_def w_collateral_def
        w_totalCollateral_def internal_defs arith_defs fixture_defs)
  then obtain j t where
    x: "raw_exec (env_at 2 1000) (WithdrawCollateral (90 * WAD)) ([], funded)
            = (Inl InsufficientCollateral, (j, t))"
    and p: "collateral (accounts t 2) = 10 * WAD" "totalCollateral t = 10 * WAD"
    by blast
  have f: "collateral (accounts funded 2) = 100 * WAD"
    by (simp add: fixture_defs)
  from failed_call_is_undone [OF x] x p f show ?thesis by blast
qed

section \<open>Interest accrual\<close>

text \<open>Claim C2, amended. For every state with \<open>lastAccrual \<le> now\<close>: if
  \<open>now = lastAccrual\<close> or \<open>totalBorrows = 0\<close> or \<open>interestRatePerSecond = 0\<close>, accrual
  sets \<open>lastAccrual\<close> to \<open>now\<close> and changes nothing else. Otherwise, with
  \<open>factor = interestRatePerSecond * (now - lastAccrual)\<close>, and provided that \<open>factor\<close>,
  \<open>totalBorrows * factor\<close>, \<open>borrowIndex * factor\<close> and the two new totals fit in 256 bits,
  it adds \<open>totalBorrows * factor div WAD\<close> to \<open>totalBorrows\<close> and
  \<open>borrowIndex * factor div WAD\<close> to \<open>borrowIndex\<close>, sets \<open>lastAccrual\<close> to \<open>now\<close> and
  changes nothing else. When one of them does not fit, accrual reverts with an arithmetic
  panic.\<close>

theorem accrue_transition:
  assumes "lastAccrual s \<le> timestamp e"
  shows "accrueInterest e s =
    (if timestamp e = lastAccrual s \<or> totalBorrows s = 0 \<or> interestRatePerSecond s = 0
     then Inr (s\<lparr>lastAccrual := timestamp e\<rparr>)
     else if interestRatePerSecond s * (timestamp e - lastAccrual s) \<le> MAX_UINT
           \<and> totalBorrows s * (interestRatePerSecond s * (timestamp e - lastAccrual s)) \<le> MAX_UINT
           \<and> totalBorrows s
              + totalBorrows s * (interestRatePerSecond s * (timestamp e - lastAccrual s)) div WAD
              \<le> MAX_UINT
           \<and> borrowIndex s * (interestRatePerSecond s * (timestamp e - lastAccrual s)) \<le> MAX_UINT
           \<and> borrowIndex s
              + borrowIndex s * (interestRatePerSecond s * (timestamp e - lastAccrual s)) div WAD
              \<le> MAX_UINT
     then Inr (s\<lparr>totalBorrows := totalBorrows s
                    + totalBorrows s * (interestRatePerSecond s * (timestamp e - lastAccrual s)) div WAD,
                 borrowIndex := borrowIndex s
                    + borrowIndex s * (interestRatePerSecond s * (timestamp e - lastAccrual s)) div WAD,
                 lastAccrual := timestamp e\<rparr>)
     else Inl Panic)"
  using assms
  by (simp add: accrueInterest_def i_accrueInterest_def checked_add_def checked_sub_def
      checked_mul_def checked_div_def WAD_def)

text \<open>Scenario B: one day at a rate of 1e12 per second on a debt of 120 tokens.\<close>

theorem accrue_transition_witness:
  "lastAccrual funded \<le> timestamp (env_at 2 87400)
   \<and> accrueInterest (env_at 2 87400) funded
     = Inr (funded\<lparr>totalBorrows := 130368000000000000000,
                   borrowIndex := 1086400000000000000, lastAccrual := 87400\<rparr>)"
proof -
  have h: "lastAccrual funded \<le> timestamp (env_at 2 87400)"
    by (simp add: fixture_defs)
  show ?thesis
    using h accrue_transition [OF h] by (simp add: fixture_defs MAX_UINT_def WAD_def)
qed

text \<open>The claim as stated fails where a product overflows: after the manager has set the
  rate to the largest 256-bit value, an accrual two seconds later reverts and
  \<open>lastAccrual\<close> keeps its old value.\<close>

theorem accrue_overflow_counterexample:
  "lastAccrual (run [(env_at 1 1000, SetInterestRate MAX_UINT)] funded) \<le> timestamp (env_at 2 1002)
   \<and> accrueInterest (env_at 2 1002) (run [(env_at 1 1000, SetInterestRate MAX_UINT)] funded)
     = Inl Panic
   \<and> lastAccrual (snd (transact (env_at 2 1002) AccrueInterest
        (run [(env_at 1 1000, SetInterestRate MAX_UINT)] funded))) \<noteq> timestamp (env_at 2 1002)"
  by (simp add: public_defs internal_defs arith_defs fixture_defs)

section \<open>Monotonicity\<close>

lemma step_monotone:
  assumes "lastAccrual s \<le> timestamp e"
  shows "borrowIndex s \<le> borrowIndex (snd (transact e c s))
         \<and> lastAccrual s \<le> lastAccrual (snd (transact e c s))
         \<and> lastAccrual (snd (transact e c s)) \<le> timestamp e"
proof (cases "exec e c s")
  case (Inl err)
  with assms show ?thesis by (simp add: transact_def)
next
  case (Inr s')
  show ?thesis
  proof (cases "accrues c")
    case True
    from accruing_call_summary [OF True Inr] obtain s1 where
      a: "i_accrueInterest e s = Inr s1" and b: "borrowIndex s' = borrowIndex s1"
      and l: "lastAccrual s' = lastAccrual s1"
      by blast
    from i_accrueInterest_shape [OF a] have "borrowIndex s \<le> borrowIndex s1"
      and "lastAccrual s1 = timestamp e"
      by auto
    with assms Inr b l show ?thesis by (simp add: transact_def)
  next
    case False
    from other_call_summary [OF False Inr] assms Inr show ?thesis
      by (simp add: transact_def)
  qed
qed

lemma hd_states_of: "hd (states_of steps s) = s"
  by (cases steps) auto

lemma states_of_not_Nil: "states_of steps s \<noteq> []"
  by (cases steps) auto

text \<open>Claim C3. Along every sequence of calls (mutating or read-only, successful or
  reverted) whose timestamps never go back, starting at or after the last accrual, the
  borrow index and the accrual timestamp never decrease from one state to the next.
  The calls are those of \<^typ>\<open>call\<close>: the functions the contract declares.\<close>

theorem index_and_clock_never_decrease:
  assumes "sorted (lastAccrual s # map (\<lambda>(e, c). timestamp e) steps)"
  shows "successively (\<lambda>a b. borrowIndex a \<le> borrowIndex b \<and> lastAccrual a \<le> lastAccrual b)
           (states_of steps s)"
  using assms
proof (induction steps arbitrary: s)
  case Nil
  then show ?case by simp
next
  case (Cons step rest)
  obtain e c where step: "step = (e, c)" by (cases step)
  let ?s' = "snd (transact e c s)"
  from Cons.prems step have le: "lastAccrual s \<le> timestamp e"
    and after: "\<forall>t \<in> set (map (\<lambda>(e, c). timestamp e) rest). timestamp e \<le> t"
    and srt: "sorted (map (\<lambda>(e, c). timestamp e) rest)"
    by auto
  from step_monotone [OF le, of c] have m: "borrowIndex s \<le> borrowIndex ?s'"
    "lastAccrual s \<le> lastAccrual ?s'" "lastAccrual ?s' \<le> timestamp e"
    by auto
  from m(3) after srt have "sorted (lastAccrual ?s' # map (\<lambda>(e, c). timestamp e) rest)"
    by auto
  then have ih: "successively (\<lambda>a b. borrowIndex a \<le> borrowIndex b \<and> lastAccrual a \<le> lastAccrual b)
           (states_of rest ?s')"
    by (rule Cons.IH)
  show ?case
    using ih m step by (simp add: successively_Cons hd_states_of states_of_not_Nil)
qed

theorem index_and_clock_never_decrease_witness:
  "sorted (lastAccrual funded # map (\<lambda>(e, c). timestamp e)
      [(env_at 2 87400, AccrueInterest), (env_at 2 87400, Borrow (30 * WAD)),
       (env_at 1 90000, GetPoolData), (env_at 2 90000, Repay (10 * WAD))])
   \<and> successively (\<lambda>a b. borrowIndex a \<le> borrowIndex b \<and> lastAccrual a \<le> lastAccrual b)
        (states_of [(env_at 2 87400, AccrueInterest), (env_at 2 87400, Borrow (30 * WAD)),
                    (env_at 1 90000, GetPoolData), (env_at 2 90000, Repay (10 * WAD))] funded)"
proof -
  have h: "sorted (lastAccrual funded # map (\<lambda>(e, c). timestamp e)
      [(env_at 2 87400, AccrueInterest), (env_at 2 87400, Borrow (30 * WAD)),
       (env_at 1 90000, GetPoolData), (env_at 2 90000, Repay (10 * WAD))])"
    by (simp add: fixture_defs)
  show ?thesis
    using h index_and_clock_never_decrease [OF h] by simp
qed

section \<open>The solvency gate\<close>

lemma i_collateralValueUsd_tokenBal [simp]:
  "i_collateralValueUsd e (s\<lparr>tokenBal := b\<rparr>) x = i_collateralValueUsd e s x"
  by (simp add: i_collateralValueUsd_def)

lemma i_debtValueUsd_tokenBal [simp]:
  "i_debtValueUsd e (s\<lparr>tokenBal := b\<rparr>) x = i_debtValueUsd e s x"
  by (simp add: i_debtValueUsd_def)

lemma i_borrowBalance_tokenBal [simp]:
  "i_borrowBalance (s\<lparr>tokenBal := b\<rparr>) a = i_borrowBalance s a"
  by (simp add: i_borrowBalance_def)

lemma i_isSolvent_tokenBal [simp]: "i_isSolvent e (s\<lparr>tokenBal := b\<rparr>) a = i_isSolvent e s a"
  by (simp add: i_isSolvent_def cong: if_cong)

lemma i_debtValueUsd_zero: "i_debtValueUsd e s 0 = Inr 0"
  by (simp add: i_debtValueUsd_def i_tokenValueUsd_def)

lemma i_isSolvent_True:
  assumes "i_isSolvent e s a = Inr True"
  shows "\<exists>debt debtValue. i_borrowBalance s a = Inr debt
           \<and> i_debtValueUsd e s debt = Inr debtValue
           \<and> (0 < debt \<longrightarrow> (\<exists>cv. i_collateralValueUsd e s (collateral a) = Inr cv))
           \<and> (\<forall>cv. i_collateralValueUsd e s (collateral a) = Inr cv
                 \<longrightarrow> debtValue \<le> cv * collateralFactor s div WAD)"
proof -
  from assms obtain debt where d: "i_borrowBalance s a = Inr debt"
    and rest: "(if debt = 0 then Inr True
     else
       bnd (i_collateralValueUsd e s (collateral a)) (\<lambda>collateralValue.
       bnd (i_debtValueUsd e s debt) (\<lambda>debtValue.
       bnd (checked_mul collateralValue (collateralFactor s)) (\<lambda>p.
       bnd (checked_div p WAD) (\<lambda>limit.
       Inr (limit \<ge> debtValue)))))) = Inr True"
    unfolding i_isSolvent_def bnd_eq_Inr_iff by blast
  show ?thesis
  proof (cases "debt = 0")
    case True
    with d i_debtValueUsd_zero [of e s] show ?thesis by auto
  next
    case False
    with rest obtain cv dv where "i_collateralValueUsd e s (collateral a) = Inr cv"
      and "i_debtValueUsd e s debt = Inr dv" and "dv \<le> cv * collateralFactor s div WAD"
      by (auto simp: success_iffs)
    with d show ?thesis by auto
  qed
qed

text \<open>Claim C4. After a successful \<open>borrow\<close> or \<open>withdrawCollateral\<close> the caller's
  account is solvent in the state the call leaves: its debt has a USD value
  \<open>debtValue\<close> (0 for a debt of 0, which needs no price), and the USD value \<open>cv\<close> of its
  collateral satisfies \<open>cv * collateralFactor div WAD \<ge> debtValue\<close>, that is, never
  \<open>cv * collateralFactor < debtValue * WAD\<close>. With a debt above 0 the collateral value
  exists (both prices were read during the call).\<close>

theorem solvency_gate:
  assumes "exec e c s = Inr s'" and "c = Borrow amount \<or> c = WithdrawCollateral amount"
  shows "\<exists>debt debtValue.
           i_borrowBalance s' (accounts s' (sender e)) = Inr debt
           \<and> i_debtValueUsd e s' debt = Inr debtValue
           \<and> (0 < debt \<longrightarrow>
                (\<exists>cv. i_collateralValueUsd e s' (collateral (accounts s' (sender e))) = Inr cv))
           \<and> (\<forall>cv. i_collateralValueUsd e s' (collateral (accounts s' (sender e))) = Inr cv
                 \<longrightarrow> debtValue \<le> cv * collateralFactor s' div WAD
                     \<and> \<not> cv * collateralFactor s' < debtValue * WAD)"
proof -
  have "i_isSolvent e s' (accounts s' (sender e)) = Inr True"
  proof (cases "c = Borrow amount")
    case True
    with assms have "borrow e amount s = Inr s'" by simp
    then show ?thesis
      by (rule borrow_cases) (auto dest!: safeTransfer_shape)
  next
    case False
    with assms have "withdrawCollateral e amount s = Inr s'" by auto
    then show ?thesis
      by (rule withdrawCollateral_cases) (auto dest!: safeTransfer_shape)
  qed
  from i_isSolvent_True [OF this] obtain debt debtValue where
    1: "i_borrowBalance s' (accounts s' (sender e)) = Inr debt"
    and 2: "i_debtValueUsd e s' debt = Inr debtValue"
    and 3: "0 < debt \<longrightarrow>
                (\<exists>cv. i_collateralValueUsd e s' (collateral (accounts s' (sender e))) = Inr cv)"
    and 4: "\<forall>cv. i_collateralValueUsd e s' (collateral (accounts s' (sender e))) = Inr cv
                 \<longrightarrow> debtValue \<le> cv * collateralFactor s' div WAD"
    by blast
  have 5: "\<not> x < debtValue * WAD" if "debtValue \<le> x div WAD" for x
  proof -
    from that have "debtValue * WAD \<le> (x div WAD) * WAD" by simp
    also have "\<dots> \<le> x" by simp
    finally show ?thesis by simp
  qed
  from 1 2 3 4 5 show ?thesis by blast
qed

theorem solvency_gate_witness:
  "\<exists>s'. exec (env_at 2 1000) (Borrow (20 * WAD)) funded = Inr s'
     \<and> i_borrowBalance s' (accounts s' 2) = Inr (140 * WAD)
     \<and> i_debtValueUsd (env_at 2 1000) s' (140 * WAD) = Inr (140 * WAD)
     \<and> i_collateralValueUsd (env_at 2 1000) s' (collateral (accounts s' 2)) = Inr (200 * WAD)
     \<and> 140 * WAD \<le> 200 * WAD * collateralFactor s' div WAD"
proof -
  have "\<exists>s'. exec (env_at 2 1000) (Borrow (20 * WAD)) funded = Inr s'"
    by (simp add: public_defs internal_defs arith_defs fixture_defs)
  then obtain s' where x: "exec (env_at 2 1000) (Borrow (20 * WAD)) funded = Inr s'" ..
  from x have f: "accounts s' 2 = \<lparr>collateral = 100 * WAD, borrowBase = 140 * WAD\<rparr>"
    "borrowIndex s' = WAD" "debtOracle s' = 21" "collateralOracle s' = 20"
    "debtTokenDecimals s' = 18" "collateralTokenDecimals s' = 18"
    by (auto simp add: public_defs internal_defs arith_defs fixture_defs)
  have v: "i_borrowBalance s' (accounts s' 2) = Inr (140 * WAD)"
     "i_debtValueUsd (env_at 2 1000) s' (140 * WAD) = Inr (140 * WAD)"
     "i_collateralValueUsd (env_at 2 1000) s' (collateral (accounts s' 2)) = Inr (200 * WAD)"
    by (simp_all add: f internal_defs arith_defs fixture_defs)
  from solvency_gate [OF x, of "20 * WAD"] v x
  show ?thesis by (auto simp: env_at_def)
qed

section \<open>Liquidation\<close>

lemma moveTokens_other: "tok' \<noteq> tok \<Longrightarrow> moveTokens tok src dst amount b tok' = b tok'"
  by (simp add: moveTokens_def Let_def)

lemma moveTokens_dst: "src \<noteq> dst \<Longrightarrow> moveTokens tok src dst amount b tok dst = b tok dst + amount"
  by (simp add: moveTokens_def Let_def)

lemma moveTokens_src: "src \<noteq> dst \<Longrightarrow> moveTokens tok src dst amount b tok src = b tok src - amount"
  by (simp add: moveTokens_def Let_def)

text \<open>Claim C7. A successful \<open>liquidate\<close> seizes
  \<open>min (actualRepay * liquidationBonus div WAD) (the borrower's collateral)\<close>, where
  \<open>actualRepay = min repayAmount debt\<close> and \<open>debt\<close> is the borrower's debt after accrual:
  that amount leaves the borrower's collateral and \<open>totalCollateral\<close>, and (the two tokens
  being different contracts and the caller not the pool itself) it is paid to the
  liquidator out of the pool's collateral-token balance.\<close>

theorem liquidation_seizure:
  assumes "liquidate e borrower repayAmount s = Inr s'"
  shows "\<exists>s1 debt seize.
           i_accrueInterest e s = Inr s1
           \<and> i_borrowBalance s1 (accounts s1 borrower) = Inr debt
           \<and> seize = min (min repayAmount debt * liquidationBonus s div WAD)
                         (collateral (accounts s borrower))
           \<and> seize \<le> totalCollateral s
           \<and> collateral (accounts s' borrower) = collateral (accounts s borrower) - seize
           \<and> totalCollateral s' = totalCollateral s - seize
           \<and> (collateralToken s \<noteq> debtToken s \<and> sender e \<noteq> poolAddress s \<longrightarrow>
                tokenBal s' (collateralToken s) (sender e)
                  = tokenBal s (collateralToken s) (sender e) + seize
                \<and> tokenBal s' (collateralToken s) (poolAddress s)
                  = tokenBal s (collateralToken s) (poolAddress s) - seize)"
  using assms
proof (rule liquidate_cases)
  fix s1 h debt s2 r s3 seize
  assume a: "i_accrueInterest e s = Inr s1"
    and d: "i_borrowBalance s1 (accounts s1 borrower) = Inr debt"
    and t1: "safeTransferFrom (debtToken s1) (sender e) (min repayAmount debt) s1 = Inr s2"
    and dec: "i_decreaseBorrow borrower (min repayAmount debt) s2 = Inr (r, s3)"
    and sz: "seize = min (min repayAmount debt * liquidationBonus s3 div WAD) (collateral (accounts s3 borrower))"
    and le: "seize \<le> totalCollateral s3"
    and t2: "safeTransfer (collateralToken s3) (sender e) seize
           ((setCollateral borrower (collateral (accounts s3 borrower) - seize) s3)
              \<lparr>totalCollateral := totalCollateral s3 - seize\<rparr>) = Inr s'"
  from i_accrueInterest_shape [OF a] obtain tb bi where
    s1: "s1 = s\<lparr>totalBorrows := tb, borrowIndex := bi, lastAccrual := timestamp e\<rparr>"
    by blast
  from t1 have
    s2: "s2 = s1\<lparr>tokenBal := moveTokens (debtToken s1) (sender e) (poolAddress s1)
                               (min repayAmount debt) (tokenBal s1),
                 tokenAllowance := (tokenAllowance s1)(debtToken s1 :=
                    (tokenAllowance s1 (debtToken s1))(sender e :=
                       tokenAllowance s1 (debtToken s1) (sender e) - min repayAmount debt))\<rparr>"
    by (simp add: safeTransferFrom_def split: if_splits)
  from i_decreaseBorrow_shape [OF dec] obtain base where
    s3: "s3 = (setBorrowBase borrower base s2)\<lparr>totalBorrows := totalBorrows s2 - r\<rparr>"
    by blast
  from t2 have s': "s' = ((setCollateral borrower (collateral (accounts s3 borrower) - seize) s3)
              \<lparr>totalCollateral := totalCollateral s3 - seize\<rparr>)
              \<lparr>tokenBal := moveTokens (collateralToken s3) (poolAddress s3) (sender e) seize (tokenBal s3)\<rparr>"
    by (auto simp: safeTransfer_def setCollateral_def split: if_splits)
  have f3: "collateral (accounts s3 borrower) = collateral (accounts s borrower)"
    "liquidationBonus s3 = liquidationBonus s" "totalCollateral s3 = totalCollateral s"
    "collateralToken s3 = collateralToken s" "poolAddress s3 = poolAddress s"
    "debtToken s1 = debtToken s" "poolAddress s1 = poolAddress s"
    "tokenBal s3 = moveTokens (debtToken s) (sender e) (poolAddress s) (min repayAmount debt) (tokenBal s)"
    unfolding s3 s2 s1 by (simp_all add: setBorrowBase_def)
  have c1: "collateral (accounts s' borrower) = collateral (accounts s borrower) - seize"
    by (subst s') (simp add: setCollateral_def f3)
  have c2: "totalCollateral s' = totalCollateral s - seize"
    by (subst s') (simp add: setCollateral_def f3)
  have c3: "tokenBal s' = moveTokens (collateralToken s) (poolAddress s) (sender e) seize
              (moveTokens (debtToken s) (sender e) (poolAddress s) (min repayAmount debt) (tokenBal s))"
    by (subst s') (simp add: setCollateral_def f3)
  have c4: "tokenBal s' (collateralToken s) (sender e) = tokenBal s (collateralToken s) (sender e) + seize
         \<and> tokenBal s' (collateralToken s) (poolAddress s) = tokenBal s (collateralToken s) (poolAddress s) - seize"
    if "collateralToken s \<noteq> debtToken s" "sender e \<noteq> poolAddress s"
    using that by (simp add: c3 moveTokens_dst moveTokens_src moveTokens_other)
  have sz': "seize = min (min repayAmount debt * liquidationBonus s div WAD)
                         (collateral (accounts s borrower))"
    using sz by (simp only: f3)
  have le': "seize \<le> totalCollateral s"
    using le by (simp only: f3)
  from a d sz' le' c1 c2 c4 show ?thesis
    by blast
qed


theorem liquidation_seizure_witness:
  "\<exists>s'. liquidate liquidator_env 2 (10 * WAD) funded = Inr s'
     \<and> collateral (accounts s' 2) = 100 * WAD - 10500000000000000000
     \<and> totalCollateral s' = 100 * WAD - 10500000000000000000
     \<and> tokenBal s' 10 3 = 10500000000000000000"
proof -
  have "\<exists>s'. liquidate liquidator_env 2 (10 * WAD) funded = Inr s'"
    by (simp add: public_defs internal_defs arith_defs fixture_defs)
  then obtain s' where x: "liquidate liquidator_env 2 (10 * WAD) funded = Inr s'" ..
  from liquidation_seizure [OF x] obtain s1 debt seize where
    a: "i_accrueInterest liquidator_env funded = Inr s1"
    and d: "i_borrowBalance s1 (accounts s1 2) = Inr debt"
    and sz: "seize = min (min (10 * WAD) debt * liquidationBonus funded div WAD)
                         (collateral (accounts funded 2))"
    and c: "collateral (accounts s' 2) = collateral (accounts funded 2) - seize"
    and t: "totalCollateral s' = totalCollateral funded - seize"
    and tok: "collateralToken funded \<noteq> debtToken funded \<and> sender liquidator_env \<noteq> poolAddress funded \<longrightarrow>
                tokenBal s' (collateralToken funded) (sender liquidator_env)
                  = tokenBal funded (collateralToken funded) (sender liquidator_env) + seize"
    by blast
  from a have s1: "borrowIndex s1 = WAD" "accounts s1 2 = \<lparr>collateral = 100 * WAD, borrowBase = 120 * WAD\<rparr>"
    by (auto simp add: i_accrueInterest_def fixture_defs)
  from d have debt: "debt = 120 * WAD"
    by (simp add: s1 i_borrowBalance_def i_borrowBalanceWithIndex_def arith_defs)
  from sz have seize: "seize = 10500000000000000000"
    by (simp add: debt fixture_defs WAD_def)
  from x c t tok show ?thesis
    by (simp add: seize fixture_defs WAD_def)
qed

section \<open>The liquidation gate\<close>

lemma accrue_preview:
  assumes "i_accrueInterest e s = Inr s1"
  shows "i_previewAccrual e s = Inr (borrowIndex s1, totalBorrows s1)"
proof (cases "timestamp e = lastAccrual s \<or> totalBorrows s = 0 \<or> interestRatePerSecond s = 0")
  case True
  with assms have "s1 = s\<lparr>lastAccrual := timestamp e\<rparr>"
    by (simp add: i_accrueInterest_def)
  with True show ?thesis by (simp add: i_previewAccrual_def)
next
  case False
  with assms obtain i j where
    s1: "s1 = s\<lparr>totalBorrows := totalBorrows s + i, borrowIndex := borrowIndex s + j,
             lastAccrual := timestamp e\<rparr>"
    and p: "i_previewAccrual e s = Inr (borrowIndex s + j, totalBorrows s + i)"
    by (simp add: i_accrueInterest_def i_previewAccrual_def success_iffs)
  show ?thesis by (simp add: s1 p)
qed

lemma preview_accrue:
  assumes "i_previewAccrual e s = Inr (index, borrows)"
  shows "i_accrueInterest e s
         = Inr (s\<lparr>totalBorrows := borrows, borrowIndex := index, lastAccrual := timestamp e\<rparr>)"
proof (cases "timestamp e = lastAccrual s \<or> totalBorrows s = 0 \<or> interestRatePerSecond s = 0")
  case True
  with assms have "index = borrowIndex s" "borrows = totalBorrows s"
    by (simp_all add: i_previewAccrual_def)
  with True show ?thesis by (simp add: i_accrueInterest_def)
next
  case False
  with assms show ?thesis
    by (simp add: i_accrueInterest_def i_previewAccrual_def success_iffs)
qed


lemma i_healthFactor_accrued [simp]:
  "i_healthFactor e (s\<lparr>totalBorrows := tb, borrowIndex := bi, lastAccrual := t\<rparr>) c b i th
   = i_healthFactor e s c b i th"
  by (simp add: i_healthFactor_def i_collateralValueUsd_def i_debtValueUsd_def cong: if_cong)

lemma zero_debt_is_healthy:
  assumes "i_borrowBalanceWithIndex a index = Inr 0"
  shows "i_healthFactor e s (collateral a) (borrowBase a) index th = Inr MAX_UINT"
  using assms
  by (auto simp: i_borrowBalanceWithIndex_def i_healthFactor_def success_iffs split: if_splits)

lemma checked_never_NoDebt [simp]:
  "checked_add a b \<noteq> Inl NoDebt" "checked_sub a b \<noteq> Inl NoDebt" "checked_mul a b \<noteq> Inl NoDebt"
  "checked_div a b \<noteq> Inl NoDebt" "checked_pow10 d \<noteq> Inl NoDebt"
  by (simp_all add: arith_defs)

lemma i_accrueInterest_never_NoDebt [simp]: "i_accrueInterest e s \<noteq> Inl NoDebt"
  by (simp add: i_accrueInterest_def bnd_eq_Inl_iff)

lemma i_borrowBalanceWithIndex_never_NoDebt [simp]: "i_borrowBalanceWithIndex a i \<noteq> Inl NoDebt"
  by (simp add: i_borrowBalanceWithIndex_def bnd_eq_Inl_iff)

lemma i_getScaledPrice_never_NoDebt [simp]: "i_getScaledPrice e oracle \<noteq> Inl NoDebt"
  by (simp add: i_getScaledPrice_def bnd_eq_Inl_iff require_eq_Inl_iff split: option.splits)

lemma i_tokenValueUsd_never_NoDebt [simp]: "i_tokenValueUsd e a d oracle \<noteq> Inl NoDebt"
  by (simp add: i_tokenValueUsd_def bnd_eq_Inl_iff)

lemma i_healthFactor_never_NoDebt [simp]: "i_healthFactor e s c b i th \<noteq> Inl NoDebt"
  by (simp add: i_healthFactor_def i_collateralValueUsd_def i_debtValueUsd_def bnd_eq_Inl_iff)

lemma safeTransfer_never_NoDebt [simp]:
  "safeTransfer tok dst a s \<noteq> Inl NoDebt" "safeTransferFrom tok src a s \<noteq> Inl NoDebt"
  by (simp_all add: safeTransfer_def safeTransferFrom_def)

lemma i_decreaseBorrow_never_NoDebt [simp]: "i_decreaseBorrow who a s \<noteq> Inl NoDebt"
  by (simp add: i_decreaseBorrow_def i_borrowBalance_def bnd_eq_Inl_iff Let_def)


lemma liquidate_never_NoDebt: "liquidate e borrower repayAmount s \<noteq> Inl NoDebt"
proof
  assume "liquidate e borrower repayAmount s = Inl NoDebt"
  then obtain s1 h where "i_healthFactor e s1 (collateral (accounts s1 borrower))
       (borrowBase (accounts s1 borrower)) (borrowIndex s1) (liquidationThreshold s1) = Inr h"
    and "\<not> WAD \<le> h"
    and "i_borrowBalanceWithIndex (accounts s1 borrower) (borrowIndex s1) = Inr 0"
    by (auto simp add: liquidate_def whenNotPaused_def i_isHealthy_def i_borrowBalance_def
        bnd_eq_Inl_iff require_eq_Inl_iff success_iffs Let_def split: prod.splits)
  moreover from this(3) have "i_healthFactor e s1 (collateral (accounts s1 borrower))
       (borrowBase (accounts s1 borrower)) (borrowIndex s1) (liquidationThreshold s1) = Inr MAX_UINT"
    by (rule zero_debt_is_healthy)
  ultimately show False by (simp add: MAX_UINT_def WAD_def)
qed

lemma liquidate_self:
  "\<not> paused s \<Longrightarrow> borrower = sender e \<Longrightarrow> liquidate e borrower repayAmount s = Inl SelfLiquidation"
  by (simp add: liquidate_def whenNotPaused_def require_def)

lemma liquidate_zero:
  "\<not> paused s \<Longrightarrow> borrower \<noteq> sender e \<Longrightarrow> liquidate e borrower 0 s = Inl AmountZero"
  by (simp add: liquidate_def whenNotPaused_def require_def)

lemma liquidate_healthy:
  assumes "\<not> paused s" and "borrower \<noteq> sender e" and "0 < repayAmount"
    and "i_previewAccrual e s = Inr (index, borrows)"
    and "i_healthFactor e s (collateral (accounts s borrower)) (borrowBase (accounts s borrower))
           index (liquidationThreshold s) = Inr health"
    and "WAD \<le> health"
  shows "liquidate e borrower repayAmount s = Inl AccountHealthy"
  using assms preview_accrue [OF assms(4)]
  by (simp add: liquidate_def whenNotPaused_def require_def i_isHealthy_def)

lemma liquidate_success:
  assumes "liquidate e borrower repayAmount s = Inr s'"
  shows "borrower \<noteq> sender e \<and> 0 < repayAmount \<and>
      (\<exists>index borrows debt health. i_previewAccrual e s = Inr (index, borrows)
         \<and> i_borrowBalanceWithIndex (accounts s borrower) index = Inr debt \<and> 0 < debt
         \<and> i_healthFactor e s (collateral (accounts s borrower)) (borrowBase (accounts s borrower))
              index (liquidationThreshold s) = Inr health
         \<and> health < WAD)"
  using assms
proof (rule liquidate_cases)
  fix s1 h debt
  assume 1: "borrower \<noteq> sender e" "0 < repayAmount"
    and a: "i_accrueInterest e s = Inr s1"
    and h: "i_healthFactor e s1 (collateral (accounts s1 borrower)) (borrowBase (accounts s1 borrower))
           (borrowIndex s1) (liquidationThreshold s1) = Inr h" "\<not> WAD \<le> h"
    and d: "i_borrowBalance s1 (accounts s1 borrower) = Inr debt" "0 < debt"
  from i_accrueInterest_shape [OF a] obtain tb bi where
    s1: "s1 = s\<lparr>totalBorrows := tb, borrowIndex := bi, lastAccrual := timestamp e\<rparr>"
    by blast
  from accrue_preview [OF a] have p: "i_previewAccrual e s = Inr (bi, tb)"
    by (simp add: s1)
  from h have h': "i_healthFactor e s (collateral (accounts s borrower)) (borrowBase (accounts s borrower))
           bi (liquidationThreshold s) = Inr h"
    by (simp add: s1)
  from d have d': "i_borrowBalanceWithIndex (accounts s borrower) bi = Inr debt"
    by (simp add: s1 i_borrowBalance_def)
  from 1 p h' h(2) d' d(2) show ?thesis by auto
qed


text \<open>Claim C5, amended. \<open>liquidate\<close> succeeds only if the liquidator is not the
  borrower, \<open>repayAmount > 0\<close>, and, at the index projected to the time of the call (the
  one every view reports), the borrower's debt is above 0 and the health factor is
  below \<open>WAD\<close>. With the pool not paused, it fails with \<open>SelfLiquidation\<close> when the
  liquidator is the borrower, otherwise with \<open>AmountZero\<close> when \<open>repayAmount = 0\<close>,
  otherwise with \<open>AccountHealthy\<close> when the health factor is at least \<open>WAD\<close>; a debt of 0
  is such a case, the health factor being the largest 256-bit value. It never fails with
  \<open>NoDebt\<close>: the check of the debt comes after the check of the health factor.\<close>

theorem liquidation_gate:
  "(liquidate e borrower repayAmount s = Inr s' \<longrightarrow>
      borrower \<noteq> sender e \<and> 0 < repayAmount \<and>
      (\<exists>index borrows debt health. i_previewAccrual e s = Inr (index, borrows)
         \<and> i_borrowBalanceWithIndex (accounts s borrower) index = Inr debt \<and> 0 < debt
         \<and> i_healthFactor e s (collateral (accounts s borrower)) (borrowBase (accounts s borrower))
              index (liquidationThreshold s) = Inr health
         \<and> health < WAD))
   \<and> (\<not> paused s \<and> borrower = sender e \<longrightarrow>
        liquidate e borrower repayAmount s = Inl SelfLiquidation)
   \<and> (\<not> paused s \<and> borrower \<noteq> sender e \<and> repayAmount = 0 \<longrightarrow>
        liquidate e borrower repayAmount s = Inl AmountZero)
   \<and> (\<not> paused s \<and> borrower \<noteq> sender e \<and> 0 < repayAmount
        \<and> i_previewAccrual e s = Inr (index, borrows)
        \<and> i_healthFactor e s (collateral (accounts s borrower)) (borrowBase (accounts s borrower))
              index (liquidationThreshold s) = Inr health
        \<and> WAD \<le> health \<longrightarrow>
        liquidate e borrower repayAmount s = Inl AccountHealthy)
   \<and> (\<not> paused s \<and> borrower \<noteq> sender e \<and> 0 < repayAmount
        \<and> i_previewAccrual e s = Inr (index, borrows)
        \<and> i_borrowBalanceWithIndex (accounts s borrower) index = Inr 0 \<longrightarrow>
        liquidate e borrower repayAmount s = Inl AccountHealthy)
   \<and> liquidate e borrower repayAmount s \<noteq> Inl NoDebt"
proof (intro conjI impI)
  assume "liquidate e borrower repayAmount s = Inr s'"
  from liquidate_success [OF this]
  show "borrower \<noteq> sender e" and "0 < repayAmount"
    and "\<exists>index borrows debt health. i_previewAccrual e s = Inr (index, borrows)
         \<and> i_borrowBalanceWithIndex (accounts s borrower) index = Inr debt \<and> 0 < debt
         \<and> i_healthFactor e s (collateral (accounts s borrower)) (borrowBase (accounts s borrower))
              index (liquidationThreshold s) = Inr health
         \<and> health < WAD"
    by blast+
next
  assume "\<not> paused s \<and> borrower = sender e"
  then show "liquidate e borrower repayAmount s = Inl SelfLiquidation"
    by (simp add: liquidate_self)
next
  assume "\<not> paused s \<and> borrower \<noteq> sender e \<and> repayAmount = 0"
  then show "liquidate e borrower repayAmount s = Inl AmountZero"
    by (simp add: liquidate_zero)
next
  assume "\<not> paused s \<and> borrower \<noteq> sender e \<and> 0 < repayAmount
        \<and> i_previewAccrual e s = Inr (index, borrows)
        \<and> i_healthFactor e s (collateral (accounts s borrower)) (borrowBase (accounts s borrower))
              index (liquidationThreshold s) = Inr health
        \<and> WAD \<le> health"
  then show "liquidate e borrower repayAmount s = Inl AccountHealthy"
    by (blast intro: liquidate_healthy)
next
  assume h: "\<not> paused s \<and> borrower \<noteq> sender e \<and> 0 < repayAmount
        \<and> i_previewAccrual e s = Inr (index, borrows)
        \<and> i_borrowBalanceWithIndex (accounts s borrower) index = Inr 0"
  then have "i_healthFactor e s (collateral (accounts s borrower)) (borrowBase (accounts s borrower))
              index (liquidationThreshold s) = Inr MAX_UINT"
    by (blast intro: zero_debt_is_healthy)
  moreover have "WAD \<le> MAX_UINT"
    by (simp add: WAD_def MAX_UINT_def)
  ultimately show "liquidate e borrower repayAmount s = Inl AccountHealthy"
    using h by (blast intro: liquidate_healthy)
next
  show "liquidate e borrower repayAmount s \<noteq> Inl NoDebt"
    by (rule liquidate_never_NoDebt)
qed

theorem liquidation_gate_witness:
  "(\<exists>s'. liquidate liquidator_env 2 (10 * WAD) funded = Inr s')
   \<and> (\<exists>health. i_healthFactor liquidator_env funded (collateral (accounts funded 2))
          (borrowBase (accounts funded 2)) WAD (liquidationThreshold funded) = Inr health
        \<and> health < WAD)
   \<and> liquidate (env_at 2 1000) 2 (10 * WAD) funded = Inl SelfLiquidation
   \<and> liquidate (env_at 3 1000) 2 0 funded = Inl AmountZero
   \<and> liquidate (env_at 3 1000) 2 (10 * WAD) funded = Inl AccountHealthy
   \<and> liquidate (env_at 3 1000) 1 (10 * WAD) funded = Inl AccountHealthy"
proof -
  have "\<exists>s'. liquidate liquidator_env 2 (10 * WAD) funded = Inr s'"
    by (simp add: public_defs internal_defs arith_defs fixture_defs)
  then obtain s' where x: "liquidate liquidator_env 2 (10 * WAD) funded = Inr s'" ..
  have p: "i_previewAccrual e funded = Inr (WAD, 120 * WAD)" if "timestamp e = 1000" for e
    using that by (simp add: i_previewAccrual_def fixture_defs)
  from liquidation_gate [of liquidator_env 2 "10 * WAD" funded s'] x
  obtain index borrows health where
    "i_previewAccrual liquidator_env funded = Inr (index, borrows)"
    "i_healthFactor liquidator_env funded (collateral (accounts funded 2))
          (borrowBase (accounts funded 2)) index (liquidationThreshold funded) = Inr health"
    "health < WAD"
    by blast
  with p [of liquidator_env] have 1: "\<exists>health. i_healthFactor liquidator_env funded (collateral (accounts funded 2))
          (borrowBase (accounts funded 2)) WAD (liquidationThreshold funded) = Inr health
        \<and> health < WAD"
    by (auto simp: liquidator_env_def)
  have g: "\<not> paused funded" "sender (env_at 2 1000) = 2" "sender (env_at 3 1000) = 3"
    "timestamp (env_at 3 1000) = 1000"
    by (simp_all add: fixture_defs)
  have 2: "liquidate (env_at 2 1000) 2 (10 * WAD) funded = Inl SelfLiquidation"
    using liquidation_gate [of "env_at 2 1000" 2 "10 * WAD" funded] g by simp
  have 3: "liquidate (env_at 3 1000) 2 0 funded = Inl AmountZero"
    using liquidation_gate [of "env_at 3 1000" 2 0 funded] g by simp
  have hf: "i_healthFactor (env_at 3 1000) funded (collateral (accounts funded 2))
          (borrowBase (accounts funded 2)) WAD (liquidationThreshold funded) = Inr 1333333333333333333"
    by (simp add: internal_defs arith_defs fixture_defs)
  have 4: "liquidate (env_at 3 1000) 2 (10 * WAD) funded = Inl AccountHealthy"
    using liquidation_gate [of "env_at 3 1000" 2 "10 * WAD" funded _ WAD "120 * WAD" 1333333333333333333]
      g p [of "env_at 3 1000"] hf
    by (simp add: WAD_def)
  have zd: "i_borrowBalanceWithIndex (accounts funded 1) WAD = Inr 0"
    by (simp add: i_borrowBalanceWithIndex_def fixture_defs)
  have 5: "liquidate (env_at 3 1000) 1 (10 * WAD) funded = Inl AccountHealthy"
    using liquidation_gate [of "env_at 3 1000" 1 "10 * WAD" funded _ WAD "120 * WAD"]
      g p [of "env_at 3 1000"] zd
    by (simp add: WAD_def)
  from x 1 2 3 4 5 show ?thesis by blast
qed

text \<open>The claim as stated fails for a borrower without debt: the call fails with
  \<open>AccountHealthy\<close>, not with \<open>NoDebt\<close>.\<close>

theorem liquidate_zero_debt_counterexample:
  "1 \<noteq> sender (env_at 3 1000) \<and> 0 < 10 * WAD
   \<and> getBorrowBalance (env_at 3 1000) 1 funded = Inr 0
   \<and> liquidate (env_at 3 1000) 1 (10 * WAD) funded = Inl AccountHealthy
   \<and> liquidate (env_at 3 1000) 1 (10 * WAD) funded \<noteq> Inl NoDebt"
  by (simp add: getBorrowBalance_def public_defs internal_defs arith_defs fixture_defs)

section \<open>Repayment\<close>

lemma dust_reached: "run dust_steps deployed = dust"
  by (simp add: public_defs internal_defs arith_defs fixture_defs Let_def fun_eq_iff)

text \<open>What holds of \<open>repay\<close>: a successful call returns \<open>min amount debt\<close>, takes it
  off \<open>totalBorrows\<close> and clears the borrow base when the amount covers the debt; with a
  debt of 0 the call fails with \<open>NothingToRepay\<close>. And what goes wrong: the call panics
  whenever \<open>totalBorrows\<close> is below the amount to apply.\<close>

lemma repay_success:
  assumes "repay e amount s = Inr (r, s')"
  shows "\<exists>s1 debt. i_accrueInterest e s = Inr s1
           \<and> i_borrowBalance s1 (accounts s1 (sender e)) = Inr debt
           \<and> 0 < debt \<and> r = min amount debt
           \<and> r \<le> totalBorrows s1 \<and> totalBorrows s' = totalBorrows s1 - r
           \<and> (debt \<le> amount \<longrightarrow> borrowBase (accounts s' (sender e)) = 0)"
  using assms
proof (rule repay_cases)
  fix s1 s2
  assume a: "i_accrueInterest e s = Inr s1"
    and d: "i_decreaseBorrow (sender e) amount s1 = Inr (r, s2)"
    and pos: "0 < r"
    and t: "safeTransferFrom (debtToken s2) (sender e) r s2 = Inr s'"
  from safeTransferFrom_shape [OF t] obtain b al where
    s': "s' = s2\<lparr>tokenBal := b, tokenAllowance := al\<rparr>"
    by blast
  show ?thesis
  proof (rule i_decreaseBorrow_cases [OF d])
    fix debt
    assume c: "i_borrowBalance s1 (accounts s1 (sender e)) = Inr debt"
      and r: "r = min amount debt"
      and le: "0 < r \<Longrightarrow> r \<le> totalBorrows s1"
      and s2: "0 < r \<Longrightarrow> s2 = (setBorrowBase (sender e)
               (if debt - r = 0 then 0 else (debt - r) * WAD div borrowIndex s1) s1)
               \<lparr>totalBorrows := totalBorrows s1 - r\<rparr>"
    from pos r have 1: "0 < debt" by simp
    have 2: "totalBorrows s' = totalBorrows s1 - r"
      by (simp add: s' s2 [OF pos] setBorrowBase_def)
    have 3: "borrowBase (accounts s' (sender e)) = 0" if "debt \<le> amount"
      using that r by (simp add: s' s2 [OF pos] setBorrowBase_def)
    from a c 1 r le [OF pos] 2 3 show ?thesis by blast
  qed
qed

lemma repay_nothing:
  assumes "0 < amount" and "i_accrueInterest e s = Inr s1"
    and "i_borrowBalance s1 (accounts s1 (sender e)) = Inr 0"
  shows "repay e amount s = Inl NothingToRepay"
  using assms by (simp add: repay_def i_decreaseBorrow_def require_def)

lemma i_decreaseBorrow_min:
  "i_decreaseBorrow who amount0 s =
     bnd (i_borrowBalance s (accounts s who)) (\<lambda>current.
     if min amount0 current = 0 then Inr (0, s)
     else
       bnd (checked_sub current (min amount0 current)) (\<lambda>newBalance.
       bnd (if newBalance = 0 then Inr 0
            else bnd (checked_mul newBalance WAD) (\<lambda>p. checked_div p (borrowIndex s))) (\<lambda>base.
       bnd (checked_sub (totalBorrows s) (min amount0 current)) (\<lambda>tb.
       Inr (min amount0 current, (setBorrowBase who base s)\<lparr>totalBorrows := tb\<rparr>)))))"
  unfolding i_decreaseBorrow_def Let_def if_greater_min ..

lemma repay_panics_below_debt:
  assumes "0 < amount" and "i_accrueInterest e s = Inr s1"
    and "i_borrowBalance s1 (accounts s1 (sender e)) = Inr debt"
    and "totalBorrows s1 < min amount debt"
  shows "repay e amount s = Inl Panic"
proof -
  define r where "r = min amount debt"
  define m where "m = (if debt - r = 0 then Inr 0
            else bnd (checked_mul (debt - r) WAD) (\<lambda>p. checked_div p (borrowIndex s1)))"
  have r: "(if amount > debt then debt else amount) = r" by (simp add: r_def)
  from assms(1,4) have pos: "r \<noteq> 0" by (simp add: r_def)
  have sub: "checked_sub debt r = Inr (debt - r)"
    by (simp add: checked_sub_def r_def)
  from assms(4) have "\<not> r \<le> totalBorrows s1" unfolding r_def by linarith
  then have under: "checked_sub (totalBorrows s1) r = Inl Panic"
    by (simp only: checked_sub_def if_False)
  have m: "m = Inl Panic \<or> (\<exists>b. m = Inr b)"
  proof (cases "debt - r = 0")
    case True
    then show ?thesis by (simp add: m_def)
  next
    case False
    then have "m = bnd (checked_mul (debt - r) WAD) (\<lambda>p. checked_div p (borrowIndex s1))"
      by (simp add: m_def)
    then show ?thesis
      by (cases "(debt - r) * WAD \<le> MAX_UINT"; cases "borrowIndex s1 = 0")
         (simp_all add: checked_mul_def checked_div_def)
  qed
  have "i_decreaseBorrow (sender e) amount s1
        = bnd m (\<lambda>base. bnd (checked_sub (totalBorrows s1) r) (\<lambda>tb.
            Inr (r, (setBorrowBase (sender e) base s1)\<lparr>totalBorrows := tb\<rparr>)))"
    by (simp only: i_decreaseBorrow_min assms(3) bnd_Inr r_def [symmetric] pos if_False sub m_def)
  also have "\<dots> = Inl Panic"
    using m under by auto
  finally have "i_decreaseBorrow (sender e) amount s1 = Inl Panic" .
  with assms(1,2) show ?thesis
    by (simp add: repay_def require_def)
qed

text \<open>Claim C6. \<open>repay(amount)\<close> with \<open>amount > 0\<close> returns \<open>min amount debt\<close>, fails
  with \<open>NothingToRepay\<close> exactly when the debt after accrual is 0, and takes the returned
  amount off \<open>totalBorrows\<close>. The code does not do so where \<open>totalBorrows\<close> has fallen
  below the account's debt: in the state reached by the calls of \<open>dust_steps\<close> the user
  owes 2 units, \<open>totalBorrows\<close> is 1, and repaying 2 (or more) reverts with an arithmetic
  panic in \<^verbatim>\<open>totalBorrows -= amount\<close>.\<close>

theorem repay_reverts_on_rounding_drift:
  "getBorrowBalance (env_at 2 1001000) 2 (run dust_steps deployed) = Inr 2
   \<and> totalBorrows (run dust_steps deployed) = 1
   \<and> repay (env_at 2 1001000) 2 (run dust_steps deployed) = Inl Panic
   \<and> repay (env_at 2 1001000) 5 (run dust_steps deployed) = Inl Panic"
  by (simp add: dust_reached)
     (simp add: getBorrowBalance_def public_defs internal_defs arith_defs fixture_defs Let_def)

section \<open>Rounding of the borrow base\<close>

lemma base_round_trip:
  fixes N I :: nat
  assumes "0 < I"
  shows "(N * WAD div I) * I div WAD \<le> N"
    and "(N - (N * WAD div I) * I div WAD) * WAD < I + WAD"
proof -
  define b where "b = N * WAD div I"
  define d where "d = b * I div WAD"
  define x where "x = N * WAD"
  define y where "y = d * WAD"
  define z where "z = b * I"
  have W: "0 < WAD" by (simp add: WAD_def)
  have 1: "b * I \<le> x" by (simp add: b_def x_def)
  then have "d \<le> x div WAD" unfolding d_def by (rule div_le_mono)
  with W show "(N * WAD div I) * I div WAD \<le> N" by (simp add: x_def d_def b_def)
  have "x = b * I + x mod I" by (simp add: b_def x_def)
  moreover have "x mod I < I" using assms by simp
  ultimately have 2: "x < z + I" unfolding z_def by linarith
  have "b * I = y + b * I mod WAD" by (simp add: y_def d_def)
  moreover have "b * I mod WAD < WAD" using W by simp
  ultimately have 3: "z < y + WAD" unfolding z_def by linarith
  from 2 3 W have "x - y < I + WAD" by linarith
  then have "(N - d) * WAD < I + WAD" by (simp add: diff_mult_distrib x_def y_def)
  then show "(N - (N * WAD div I) * I div WAD) * WAD < I + WAD" by (simp add: d_def b_def)
qed

lemma WAD_pos: "0 < WAD"
  by (simp add: WAD_def)

lemma i_borrowBalance_after_setBorrowBase:
  assumes "b * borrowIndex s \<le> MAX_UINT"
  shows "i_borrowBalance ((setBorrowBase who b s)\<lparr>totalBorrows := tb\<rparr>)
           (accounts ((setBorrowBase who b s)\<lparr>totalBorrows := tb\<rparr>) who)
         = Inr (b * borrowIndex s div WAD)"
proof (cases "b = 0")
  case True
  then show ?thesis
    by (simp add: setBorrowBase_def i_borrowBalance_def i_borrowBalanceWithIndex_def)
next
  case False
  with assms WAD_pos show ?thesis
    by (simp add: setBorrowBase_def i_borrowBalance_def i_borrowBalanceWithIndex_def
        checked_mul_def checked_div_def)
qed

lemma i_increaseBorrow_rounding:
  assumes "i_increaseBorrow who amount s = Inr s'"
  shows "\<exists>d d'. i_borrowBalance s (accounts s who) = Inr d
           \<and> i_borrowBalance s' (accounts s' who) = Inr d'
           \<and> d' \<le> d + amount \<and> (d + amount - d') * WAD < borrowIndex s + WAD
           \<and> totalBorrows s' = totalBorrows s + amount"
proof -
  from assms obtain d where d: "i_borrowBalance s (accounts s who) = Inr d"
    and fit: "(d + amount) * WAD \<le> MAX_UINT" and nz: "borrowIndex s \<noteq> 0"
    and s': "s' = (setBorrowBase who ((d + amount) * WAD div borrowIndex s) s)
                   \<lparr>totalBorrows := totalBorrows s + amount\<rparr>"
    by (auto simp add: i_increaseBorrow_def success_iffs)
  define b where "b = (d + amount) * WAD div borrowIndex s"
  have "b * borrowIndex s \<le> (d + amount) * WAD" by (simp add: b_def)
  from this fit have ok: "b * borrowIndex s \<le> MAX_UINT" by (rule order_trans)
  have d': "i_borrowBalance s' (accounts s' who) = Inr (b * borrowIndex s div WAD)"
    unfolding s' b_def [symmetric] using ok by (rule i_borrowBalance_after_setBorrowBase)
  have tb: "totalBorrows s' = totalBorrows s + amount"
    by (simp add: s' setBorrowBase_def)
  from nz have "0 < borrowIndex s" by simp
  from base_round_trip [OF this, of "d + amount"]
  have b1: "b * borrowIndex s div WAD \<le> d + amount"
    and b2: "(d + amount - b * borrowIndex s div WAD) * WAD < borrowIndex s + WAD"
    by (simp_all only: b_def)
  from d d' b1 b2 tb show ?thesis by blast
qed


lemma i_decreaseBorrow_rounding:
  assumes "i_decreaseBorrow who amount s = Inr (r, s')"
  shows "\<exists>d d'. i_borrowBalance s (accounts s who) = Inr d
           \<and> i_borrowBalance s' (accounts s' who) = Inr d'
           \<and> r = min amount d
           \<and> d' \<le> d - r \<and> (d - r - d') * WAD < borrowIndex s + WAD
           \<and> r \<le> totalBorrows s \<and> totalBorrows s' = totalBorrows s - r"
proof (rule i_decreaseBorrow_cases [OF assms])
  fix d
  assume d: "i_borrowBalance s (accounts s who) = Inr d" and r: "r = min amount d"
    and z: "r = 0 \<Longrightarrow> s' = s"
    and le: "0 < r \<Longrightarrow> r \<le> totalBorrows s"
    and s': "0 < r \<Longrightarrow> s' = (setBorrowBase who
               (if d - r = 0 then 0 else (d - r) * WAD div borrowIndex s) s)
               \<lparr>totalBorrows := totalBorrows s - r\<rparr>"
    and fit: "0 < r \<Longrightarrow> d - r \<noteq> 0 \<Longrightarrow> (d - r) * WAD \<le> MAX_UINT \<and> borrowIndex s \<noteq> 0"
  show ?thesis
  proof (cases "r = 0")
    case True
    then have "s' = s" by (rule z)
    with True d r WAD_pos show ?thesis by simp
  next
    case False
    then have pos: "0 < r" by simp
    note s'' = s' [OF pos]
    have tb: "totalBorrows s' = totalBorrows s - r"
      by (simp add: s'' setBorrowBase_def)
    show ?thesis
    proof (cases "d - r = 0")
      case True
      have "0 * borrowIndex s \<le> MAX_UINT" by simp
      then have "i_borrowBalance ((setBorrowBase who 0 s)\<lparr>totalBorrows := totalBorrows s - r\<rparr>)
           (accounts ((setBorrowBase who 0 s)\<lparr>totalBorrows := totalBorrows s - r\<rparr>) who)
         = Inr (0 * borrowIndex s div WAD)"
        by (rule i_borrowBalance_after_setBorrowBase)
      with True s'' have d': "i_borrowBalance s' (accounts s' who) = Inr 0"
        by simp
      have "(d - r - 0) * WAD < borrowIndex s + WAD"
        using True WAD_pos by simp
      with d d' r le [OF pos] tb show ?thesis by blast
    next
      case nb: False
      define b where "b = (d - r) * WAD div borrowIndex s"
      from fit [OF pos nb] have f: "(d - r) * WAD \<le> MAX_UINT" and nz: "0 < borrowIndex s"
        by simp_all
      have "b * borrowIndex s \<le> (d - r) * WAD" by (simp add: b_def)
      from this f have ok: "b * borrowIndex s \<le> MAX_UINT" by (rule order_trans)
      from s'' nb have sb: "s' = (setBorrowBase who b s)\<lparr>totalBorrows := totalBorrows s - r\<rparr>"
        by (simp add: b_def)
      have d': "i_borrowBalance s' (accounts s' who) = Inr (b * borrowIndex s div WAD)"
        unfolding sb using ok by (rule i_borrowBalance_after_setBorrowBase)
      from base_round_trip [OF nz, of "d - r"]
      have b1: "b * borrowIndex s div WAD \<le> d - r"
        and b2: "(d - r - b * borrowIndex s div WAD) * WAD < borrowIndex s + WAD"
        by (simp_all only: b_def)
      from d d' r b1 b2 le [OF pos] tb show ?thesis by blast
    qed
  qed
qed

text \<open>Claim C8, amended. For every index of at least \<open>WAD\<close>, the bookkeeping of the
  borrow base rounds down, in the account's favour. After \<open>increaseBorrow\<close> the
  recomputed debt \<open>borrowBase * index div WAD\<close> is at most the previous debt plus the
  amount, and short of it by less than \<open>index / WAD + 1\<close> units; after \<open>decreaseBorrow\<close>
  it is at most the previous debt minus the applied amount \<open>min amount debt\<close>, and short
  of it by less than \<open>index / WAD + 1\<close> units. \<open>totalBorrows\<close> moves by exactly the amount
  in both, so each of the two operations can only lower the sum of the accounts' debts
  against \<open>totalBorrows\<close>.\<close>

theorem borrow_base_rounding:
  assumes "WAD \<le> borrowIndex s"
  shows "(i_increaseBorrow who amount s = Inr s' \<longrightarrow>
           (\<exists>d d'. i_borrowBalance s (accounts s who) = Inr d
              \<and> i_borrowBalance s' (accounts s' who) = Inr d'
              \<and> d' \<le> d + amount \<and> (d + amount - d') * WAD < borrowIndex s + WAD
              \<and> totalBorrows s' = totalBorrows s + amount))
       \<and> (i_decreaseBorrow who amount s = Inr (r, s') \<longrightarrow>
           (\<exists>d d'. i_borrowBalance s (accounts s who) = Inr d
              \<and> i_borrowBalance s' (accounts s' who) = Inr d'
              \<and> r = min amount d
              \<and> d' \<le> d - r \<and> (d - r - d') * WAD < borrowIndex s + WAD
              \<and> r \<le> totalBorrows s \<and> totalBorrows s' = totalBorrows s - r))"
  using i_increaseBorrow_rounding [of who amount s s'] i_decreaseBorrow_rounding [of who amount s r s']
  by blast

theorem borrow_base_rounding_witness:
  "WAD \<le> borrowIndex funded
   \<and> i_increaseBorrow 2 (20 * WAD) funded
       = Inr ((setBorrowBase 2 (140 * WAD) funded)\<lparr>totalBorrows := 140 * WAD\<rparr>)
   \<and> i_decreaseBorrow 2 (20 * WAD) funded
       = Inr (20 * WAD, (setBorrowBase 2 (100 * WAD) funded)\<lparr>totalBorrows := 100 * WAD\<rparr>)
   \<and> (\<exists>d d'. i_borrowBalance funded (accounts funded 2) = Inr d
          \<and> i_borrowBalance ((setBorrowBase 2 (140 * WAD) funded)\<lparr>totalBorrows := 140 * WAD\<rparr>)
               (accounts ((setBorrowBase 2 (140 * WAD) funded)\<lparr>totalBorrows := 140 * WAD\<rparr>) 2) = Inr d'
          \<and> d' \<le> d + 20 * WAD)
   \<and> (\<exists>d d'. i_borrowBalance funded (accounts funded 2) = Inr d
          \<and> i_borrowBalance ((setBorrowBase 2 (100 * WAD) funded)\<lparr>totalBorrows := 100 * WAD\<rparr>)
               (accounts ((setBorrowBase 2 (100 * WAD) funded)\<lparr>totalBorrows := 100 * WAD\<rparr>) 2) = Inr d'
          \<and> d' \<le> d - 20 * WAD)"
proof -
  have h: "WAD \<le> borrowIndex funded"
    by (simp add: fixture_defs)
  have i: "i_increaseBorrow 2 (20 * WAD) funded
       = Inr ((setBorrowBase 2 (140 * WAD) funded)\<lparr>totalBorrows := 140 * WAD\<rparr>)"
    by (simp add: internal_defs arith_defs fixture_defs)
  have d: "i_decreaseBorrow 2 (20 * WAD) funded
       = Inr (20 * WAD, (setBorrowBase 2 (100 * WAD) funded)\<lparr>totalBorrows := 100 * WAD\<rparr>)"
    by (simp add: internal_defs arith_defs fixture_defs Let_def)
  from borrow_base_rounding [OF h, of 2 "20 * WAD"
      "(setBorrowBase 2 (140 * WAD) funded)\<lparr>totalBorrows := 140 * WAD\<rparr>"] i
  have 1: "\<exists>d d'. i_borrowBalance funded (accounts funded 2) = Inr d
          \<and> i_borrowBalance ((setBorrowBase 2 (140 * WAD) funded)\<lparr>totalBorrows := 140 * WAD\<rparr>)
               (accounts ((setBorrowBase 2 (140 * WAD) funded)\<lparr>totalBorrows := 140 * WAD\<rparr>) 2) = Inr d'
          \<and> d' \<le> d + 20 * WAD"
    by blast
  from borrow_base_rounding [OF h, of 2 "20 * WAD"
      "(setBorrowBase 2 (100 * WAD) funded)\<lparr>totalBorrows := 100 * WAD\<rparr>" "20 * WAD"] d
  have 2: "\<exists>d d'. i_borrowBalance funded (accounts funded 2) = Inr d
          \<and> i_borrowBalance ((setBorrowBase 2 (100 * WAD) funded)\<lparr>totalBorrows := 100 * WAD\<rparr>)
               (accounts ((setBorrowBase 2 (100 * WAD) funded)\<lparr>totalBorrows := 100 * WAD\<rparr>) 2) = Inr d'
          \<and> d' \<le> d - 20 * WAD"
    by blast
  from h i d 1 2 show ?thesis by blast
qed

text \<open>The claim as stated fails at an index of 2.25: an account owing 2 units that
  borrows 1 more still owes 2, and one that repays 1 owes 0.\<close>

theorem rounding_favours_account_counterexample:
  "WAD \<le> borrowIndex dust
   \<and> i_borrowBalance dust (accounts dust 2) = Inr 2
   \<and> i_increaseBorrow 2 1 dust = Inr ((setBorrowBase 2 1 dust)\<lparr>totalBorrows := 2\<rparr>)
   \<and> i_borrowBalance ((setBorrowBase 2 1 dust)\<lparr>totalBorrows := 2\<rparr>)
        (accounts ((setBorrowBase 2 1 dust)\<lparr>totalBorrows := 2\<rparr>) 2) = Inr 2
   \<and> \<not> (2::nat) \<ge> 2 + 1
   \<and> i_decreaseBorrow 2 1 dust = Inr (1, (setBorrowBase 2 0 dust)\<lparr>totalBorrows := 0\<rparr>)
   \<and> i_borrowBalance ((setBorrowBase 2 0 dust)\<lparr>totalBorrows := 0\<rparr>)
        (accounts ((setBorrowBase 2 0 dust)\<lparr>totalBorrows := 0\<rparr>) 2) = Inr 0
   \<and> \<not> (0::nat) \<ge> 2 - 1"
  by (simp add: internal_defs arith_defs fixture_defs Let_def)

text \<open>The same through the public function: the user receives one more debt token and
  owes what it owed before.\<close>

lemma borrow_one_unit_for_free:
  "\<exists>s'. borrow (env_at 2 1001000) 1 dust = Inr s'
     \<and> getBorrowBalance (env_at 2 1001000) 2 dust = Inr 2
     \<and> getBorrowBalance (env_at 2 1001000) 2 s' = Inr 2
     \<and> tokenBal s' 11 2 = tokenBal dust 11 2 + 1
     \<and> totalBorrows s' = totalBorrows dust + 1"
  by (simp add: getBorrowBalance_def public_defs internal_defs arith_defs fixture_defs)

section \<open>Accrual comes first\<close>

lemma i_accrueInterest_idempotent:
  assumes "i_accrueInterest e s = Inr s1"
  shows "i_accrueInterest e s1 = Inr s1"
proof -
  from i_accrueInterest_shape [OF assms] obtain tb bi where
    "s1 = s\<lparr>totalBorrows := tb, borrowIndex := bi, lastAccrual := timestamp e\<rparr>"
    by blast
  then show ?thesis by (simp add: i_accrueInterest_def)
qed

lemma exec_after_accrue:
  assumes "accrues c" and a: "i_accrueInterest e s = Inr s1"
  shows "exec e c s1 = exec e c s"
proof -
  from i_accrueInterest_shape [OF a] obtain tb bi where
    "s1 = s\<lparr>totalBorrows := tb, borrowIndex := bi, lastAccrual := timestamp e\<rparr>"
    by blast
  then have f: "paused s1 = paused s" "managers s1 = managers s"
    by simp_all
  note i = i_accrueInterest_idempotent [OF a]
  show ?thesis
  proof (cases c)
    case (DepositCollateral amount)
    then show ?thesis by (simp add: depositCollateral_def whenNotPaused_def f i a)
  next
    case (WithdrawCollateral amount)
    then show ?thesis by (simp add: withdrawCollateral_def f i a)
  next
    case (Borrow amount)
    then show ?thesis by (simp add: borrow_def whenNotPaused_def f i a)
  next
    case (Repay amount)
    then show ?thesis by (simp add: repay_def f i a)
  next
    case (Liquidate borrower amount)
    then show ?thesis by (simp add: liquidate_def whenNotPaused_def f i a)
  next
    case (SetInterestRate r)
    then show ?thesis by (simp add: setInterestRate_def onlyManager_def f i a)
  next
    case AccrueInterest
    then show ?thesis by (simp add: accrueInterest_def i a)
  qed (use assms in simp_all)
qed

text \<open>Claim C9, amended. Of the ten mutating functions, \<open>depositCollateral\<close>,
  \<open>withdrawCollateral\<close>, \<open>borrow\<close>, \<open>repay\<close>, \<open>liquidate\<close> and \<open>setInterestRate\<close> accrue
  interest before they read or write the ledger: a successful call is the same call made
  on the accrued state, it leaves \<open>lastAccrual\<close> at the call's timestamp and
  \<open>borrowIndex\<close> at the accrued index. \<open>provideLiquidity\<close>, \<open>withdrawLiquidity\<close>,
  \<open>setRiskParameters\<close> and \<open>setOracles\<close> do not accrue: they leave \<open>lastAccrual\<close>,
  \<open>borrowIndex\<close> and \<open>totalBorrows\<close> as they were.\<close>

theorem accrue_first:
  assumes "mutating c" and "exec e c s = Inr s'"
  shows "(accrues c \<longrightarrow>
            (\<exists>s1. i_accrueInterest e s = Inr s1 \<and> exec e c s1 = Inr s'
               \<and> borrowIndex s' = borrowIndex s1 \<and> lastAccrual s' = timestamp e))
       \<and> (\<not> accrues c \<longrightarrow>
            lastAccrual s' = lastAccrual s \<and> borrowIndex s' = borrowIndex s
            \<and> totalBorrows s' = totalBorrows s)"
proof (intro conjI impI)
  assume c: "accrues c"
  from accruing_call_summary [OF c assms(2)] obtain s1 where
    a: "i_accrueInterest e s = Inr s1" and b: "borrowIndex s' = borrowIndex s1"
    and l: "lastAccrual s' = lastAccrual s1"
    by blast
  from i_accrueInterest_shape [OF a] have "lastAccrual s1 = timestamp e"
    by auto
  with a b l exec_after_accrue [OF c a] assms(2)
  show "\<exists>s1. i_accrueInterest e s = Inr s1 \<and> exec e c s1 = Inr s'
               \<and> borrowIndex s' = borrowIndex s1 \<and> lastAccrual s' = timestamp e"
    by auto
next
  assume "\<not> accrues c"
  from other_call_summary [OF this assms(2)]
  show "lastAccrual s' = lastAccrual s" "borrowIndex s' = borrowIndex s"
    "totalBorrows s' = totalBorrows s"
    by simp_all
qed

theorem accrue_first_witness:
  "mutating (Repay (10 * WAD)) \<and> accrues (Repay (10 * WAD))
   \<and> mutating (ProvideLiquidity WAD) \<and> \<not> accrues (ProvideLiquidity WAD)
   \<and> (\<exists>s'. exec (env_at 2 87400) (Repay (10 * WAD)) funded = Inr s'
         \<and> lastAccrual s' = 87400 \<and> borrowIndex s' = 1086400000000000000)
   \<and> (\<exists>s'. exec (env_at 1 87400) (ProvideLiquidity WAD) funded = Inr s'
         \<and> lastAccrual s' = 1000 \<and> borrowIndex s' = WAD \<and> totalBorrows s' = 120 * WAD)"
proof -
  have "\<exists>s'. exec (env_at 2 87400) (Repay (10 * WAD)) funded = Inr s'"
    by (simp add: public_defs internal_defs arith_defs fixture_defs Let_def)
  then obtain s' where x: "exec (env_at 2 87400) (Repay (10 * WAD)) funded = Inr s'" ..
  have m: "mutating (Repay (10 * WAD))" "accrues (Repay (10 * WAD))"
    by simp_all
  from accrue_first [OF m(1) x] m(2) obtain s1 where
    a: "i_accrueInterest (env_at 2 87400) funded = Inr s1"
    and b: "borrowIndex s' = borrowIndex s1" and l: "lastAccrual s' = timestamp (env_at 2 87400)"
    by blast
  from a have "borrowIndex s1 = 1086400000000000000"
    by (auto simp add: i_accrueInterest_def arith_defs fixture_defs)
  with b l x have 1: "\<exists>s'. exec (env_at 2 87400) (Repay (10 * WAD)) funded = Inr s'
         \<and> lastAccrual s' = 87400 \<and> borrowIndex s' = 1086400000000000000"
    by (auto simp: env_at_def)
  have "\<exists>s'. exec (env_at 1 87400) (ProvideLiquidity WAD) funded = Inr s'"
    by (simp add: public_defs internal_defs arith_defs fixture_defs)
  then obtain t' where y: "exec (env_at 1 87400) (ProvideLiquidity WAD) funded = Inr t'" ..
  have n: "mutating (ProvideLiquidity WAD)" "\<not> accrues (ProvideLiquidity WAD)"
    by simp_all
  from accrue_first [OF n(1) y] n(2) have "lastAccrual t' = lastAccrual funded"
    "borrowIndex t' = borrowIndex funded" "totalBorrows t' = totalBorrows funded"
    by blast+
  with y have 2: "\<exists>s'. exec (env_at 1 87400) (ProvideLiquidity WAD) funded = Inr s'
         \<and> lastAccrual s' = 1000 \<and> borrowIndex s' = WAD \<and> totalBorrows s' = 120 * WAD"
    by (auto simp: fixture_defs)
  from m n 1 2 show ?thesis by blast
qed

text \<open>The claim as stated fails for the four functions that do not accrue: a
  successful \<open>provideLiquidity\<close> or \<open>setRiskParameters\<close> at time 87400 leaves
  \<open>lastAccrual\<close> at 1000.\<close>

theorem no_accrual_counterexample:
  "mutating (ProvideLiquidity WAD)
   \<and> fst (transact (env_at 1 87400) (ProvideLiquidity WAD) funded) = None
   \<and> lastAccrual (snd (transact (env_at 1 87400) (ProvideLiquidity WAD) funded)) = 1000
   \<and> timestamp (env_at 1 87400) = 87400
   \<and> mutating (SetRiskParameters 500000000000000000 800000000000000000 WAD)
   \<and> fst (transact (env_at 1 87400) (SetRiskParameters 500000000000000000 800000000000000000 WAD) funded) = None
   \<and> lastAccrual (snd (transact (env_at 1 87400)
        (SetRiskParameters 500000000000000000 800000000000000000 WAD) funded)) = 1000"
  by (simp add: public_defs internal_defs arith_defs fixture_defs)

section \<open>Conservation of collateral\<close>












end
